theory Spec2Isabelle
  imports Main "HOL-Library.Word"
begin

section \<open>The NPM dataplane orchestrator (npm/pkg/dataplane/dataplane.go)\<close>

text \<open>
  The orchestrator \<open>DataPlane\<close> composes an IPSetManager, a PolicyManager and the
  platform code (endpoint refresh, per-pod update, bootup).  Those collaborators live in
  other files; they are taken here as parameters: an abstract state for each of them
  (\<open>'i\<close>, \<open>'p\<close>, \<open>'h\<close>) and a record \<open>ext\<close> of their operations, every
  operation being an arbitrary function from state to result and new state.  A
  theorem stated for an arbitrary \<open>ext\<close> holds for every behaviour of the
  collaborators; the examples fix one.

  Go's \<open>int\<close> is a 64-bit signed integer: the batch counters are \<open>64 word\<close> and
  are compared with the signed order.
\<close>

subsection \<open>Data\<close>

datatype error =
    ErrInvalidApplyConfig
  | External string
  | Wrapf string error
  | NPMError string string error

text \<open>The types of the packages \<open>ipsets\<close> and \<open>policies\<close> are declared outside
  dataplane.go; they are given here with the fields and constants that dataplane.go
  uses.\<close>

datatype ReferenceType = SelectorType | NetPolType

datatype SetType = CIDRBlocks | NestedLabelOfPod | OtherSetType nat

datatype SetKind = ListSet | HashSet | UnknownKind

record IPSetMetadata =
  Name :: string
  Type :: SetType

record TranslatedIPSet =
  Metadata :: IPSetMetadata
  Members :: "string list"

text \<open>\<open>PodEndpoints\<close> is a Go map from pod IP to endpoint id, kept as an association
  list so that \<open>range\<close> can be run.\<close>

record NPMNetworkPolicy =
  PolicyKey :: string
  RuleIPSets :: "TranslatedIPSet list"
  PodEndpoints :: "(string \<times> string) list"

record PodMetadata =
  PodKey :: string
  PodIP :: string
  NodeName :: string

record npmEndpoint =
  netPolReference :: "string set"

type_synonym endpointCache = "string \<rightharpoonup> npmEndpoint"

text \<open>Modelled from the spec: the update-pod queue (\<open>updatePodCache\<close>, with
  \<open>enqueue\<close>, \<open>dequeue\<close>, \<open>requeue\<close>, \<open>isEmpty\<close>) and its entries are declared
  outside dataplane.go.  The spec describes a queue of deduplicated per-pod-key entries,
  each holding the accumulated sets-to-add and sets-to-remove; enqueueing a pod key that
  is already queued merges into the existing entry.\<close>

record updateNPMPod =
  upPodKey :: string
  upPodIP :: string
  upNodeName :: string
  IPSetsToAdd :: "string list"
  IPSetsToRemove :: "string list"

type_synonym updatePodCache = "updateNPMPod list"

text \<open>Modelled from the spec: a fresh queue entry for a pod, with no pending sets.\<close>

definition newUpdateNPMPod :: "PodMetadata \<Rightarrow> updateNPMPod" where
  "newUpdateNPMPod m =
     \<lparr>upPodKey = PodKey m, upPodIP = PodIP m, upNodeName = NodeName m,
      IPSetsToAdd = [], IPSetsToRemove = []\<rparr>"

text \<open>Modelled from the spec: \<open>isEmpty\<close> of the update-pod queue, the
  "peek-empty" of the queue.\<close>

definition isEmpty :: "updatePodCache \<Rightarrow> bool" where
  "isEmpty q = (q = [])"

text \<open>Modelled from the spec: \<open>enqueue\<close> returns the entry for the pod key, appending
  a fresh one when the key is not queued yet ("one entry per pod key at any time").\<close>

definition enqueue :: "updatePodCache \<Rightarrow> PodMetadata \<Rightarrow> updateNPMPod \<times> updatePodCache" where
  "enqueue q m =
     (case find (\<lambda>e. upPodKey e = PodKey m) q of
        Some e \<Rightarrow> (e, q)
      | None \<Rightarrow> (newUpdateNPMPod m, q @ [newUpdateNPMPod m]))"

text \<open>Modelled from the spec: writing the entry back through the pointer that
  \<open>enqueue\<close> returned, after \<open>updateIPSetsToAdd\<close> or \<open>updateIPSetsToRemove\<close>
  has merged the new delta into it.\<close>

definition store_entry :: "updatePodCache \<Rightarrow> updateNPMPod \<Rightarrow> updatePodCache" where
  "store_entry q e = map (\<lambda>e'. if upPodKey e' = upPodKey e then e else e') q"

text \<open>Modelled from the spec: \<open>dequeue\<close> takes the first entry out of the queue, and
  gives nil on an empty queue (the case the source checks for after the call).\<close>

definition dequeue :: "updatePodCache \<Rightarrow> updateNPMPod option \<times> updatePodCache" where
  "dequeue q = (case q of [] \<Rightarrow> (None, []) | e # es \<Rightarrow> (Some e, es))"

text \<open>Modelled from the spec: \<open>requeue\<close> puts a pod whose update failed back into the
  queue ("re-enqueued, not dropped").\<close>

definition requeue :: "updatePodCache \<Rightarrow> updateNPMPod \<Rightarrow> updatePodCache" where
  "requeue q e = q @ [e]"

text \<open>Modelled from the spec: merging a delta into an entry; a set added after it was
  to be removed is no longer to be removed, and conversely.\<close>

definition updateIPSetsToAdd :: "(IPSetMetadata \<Rightarrow> string) \<Rightarrow> updateNPMPod \<Rightarrow> IPSetMetadata list \<Rightarrow> updateNPMPod" where
  "updateIPSetsToAdd prefixName e sets =
     e\<lparr>IPSetsToAdd := List.union (IPSetsToAdd e) (map prefixName sets),
       IPSetsToRemove := filter (\<lambda>s. s \<notin> set (map prefixName sets)) (IPSetsToRemove e)\<rparr>"

definition updateIPSetsToRemove :: "(IPSetMetadata \<Rightarrow> string) \<Rightarrow> updateNPMPod \<Rightarrow> IPSetMetadata list \<Rightarrow> updateNPMPod" where
  "updateIPSetsToRemove prefixName e sets =
     e\<lparr>IPSetsToRemove := List.union (IPSetsToRemove e) (map prefixName sets),
       IPSetsToAdd := filter (\<lambda>s. s \<notin> set (map prefixName sets)) (IPSetsToAdd e)\<rparr>"

subsection \<open>Calls to the collaborators\<close>

text \<open>Every call the orchestrator makes to a collaborator (set engine, rule engine,
  platform code, metrics sink) is appended to the log \<open>calls\<close> of the state, in call
  order.  The log is how "before", "no commit" and "exactly one commit" are stated.\<close>

datatype call =
    Call_CreateIPSets "IPSetMetadata list"
  | Call_AddReference IPSetMetadata string ReferenceType
  | Call_DeleteReference string string ReferenceType
  | Call_AddToSets "IPSetMetadata list" string string
  | Call_RemoveFromSets "IPSetMetadata list" string string
  | Call_AddToLists "IPSetMetadata list" "IPSetMetadata list"
  | Call_RemoveFromList IPSetMetadata "IPSetMetadata list"
  | Call_ApplyIPSets
  | Call_PMAddPolicy string
  | Call_PMRemovePolicy string
  | Call_ReconcileDirtyNetPols
  | Call_getEndpointsToApplyPolicy string
  | Call_refreshPodEndpoints
  | Call_updatePod string
  | Call_bootupDataPlane
  | Call_SendErrorLogAndMetric string

text \<open>A pointer to a policy object held by the PolicyManager.\<close>

type_synonym policy_ptr = nat

text \<open>What the platform code (dataplane_windows.go / dataplane_linux.go) can reach while
  the orchestrator holds the update-pod queue lock: both managers, the host and the
  endpoint cache.\<close>

type_synonym ('i, 'p, 'h) platform = "'i \<times> 'p \<times> 'h \<times> endpointCache"

record ('i, 'p, 'h) ext =
  IsWindowsDP :: bool
  shouldUpdatePod :: bool
  GetPrefixName :: "IPSetMetadata \<Rightarrow> string"
  GetSetKind :: "IPSetMetadata \<Rightarrow> SetKind"
  GetMembersOfTranslatedSets :: "string list \<Rightarrow> IPSetMetadata list"
  AllPodSelectorIPSets :: "NPMNetworkPolicy \<Rightarrow> TranslatedIPSet list"
  NewIPSetManager :: "bool \<Rightarrow> 'h \<Rightarrow> 'i"
  NewPolicyManager :: "'h \<Rightarrow> 'p"
  ism_CreateIPSets :: "'i \<Rightarrow> IPSetMetadata list \<Rightarrow> 'i"
  ism_AddReference :: "'i \<Rightarrow> IPSetMetadata \<Rightarrow> string \<Rightarrow> ReferenceType \<Rightarrow> error option \<times> 'i"
  ism_DeleteReference :: "'i \<Rightarrow> string \<Rightarrow> string \<Rightarrow> ReferenceType \<Rightarrow> error option \<times> 'i"
  ism_AddToSets :: "'i \<Rightarrow> IPSetMetadata list \<Rightarrow> string \<Rightarrow> string \<Rightarrow> error option \<times> 'i"
  ism_RemoveFromSets :: "'i \<Rightarrow> IPSetMetadata list \<Rightarrow> string \<Rightarrow> string \<Rightarrow> error option \<times> 'i"
  ism_AddToLists :: "'i \<Rightarrow> IPSetMetadata list \<Rightarrow> IPSetMetadata list \<Rightarrow> error option \<times> 'i"
  ism_RemoveFromList :: "'i \<Rightarrow> IPSetMetadata \<Rightarrow> IPSetMetadata list \<Rightarrow> error option \<times> 'i"
  ism_ApplyIPSets :: "'i \<Rightarrow> error option \<times> 'i"
  pm_GetPolicy :: "'p \<Rightarrow> string \<Rightarrow> policy_ptr option \<times> bool"
  pm_deref :: "'p \<Rightarrow> policy_ptr \<Rightarrow> NPMNetworkPolicy"
  pm_AddPolicy :: "'p \<Rightarrow> NPMNetworkPolicy \<Rightarrow> (string \<times> string) list \<Rightarrow> error option \<times> 'p"
  pm_RemovePolicy :: "'p \<Rightarrow> string \<Rightarrow> error option \<times> 'p"
  pm_ReconcileDirtyNetPols :: "'p \<Rightarrow> error option \<times> 'p"
  getEndpointsToApplyPolicy ::
    "('i, 'p, 'h) platform \<Rightarrow> NPMNetworkPolicy \<Rightarrow> (error option \<times> (string \<times> string) list) \<times> ('i, 'p, 'h) platform"
  refreshPodEndpoints :: "('i, 'p, 'h) platform \<Rightarrow> error option \<times> ('i, 'p, 'h) platform"
  updatePod :: "('i, 'p, 'h) platform \<Rightarrow> updateNPMPod \<Rightarrow> (error option \<times> updateNPMPod) \<times> ('i, 'p, 'h) platform"
  bootupDataPlane :: "('i, 'p, 'h) platform \<Rightarrow> error option \<times> ('i, 'p, 'h) platform"

subsection \<open>The orchestrator's state\<close>

text \<open>\<open>toDeleteNetPolReferences\<close> is a Go \<open>map[string][]string\<close>, kept as an
  association list with one pair per key; Go leaves the order of \<open>range\<close> over a map
  open, the list fixes one order.\<close>

record Config =
  cfg_ApplyInBackground :: bool
  cfg_ApplyMaxBatches :: "64 word"
  cfg_ApplyInterval :: "64 word"
  cfg_IPTablesInBackground :: bool
  cfg_IPTablesMaxBatches :: "64 word"
  cfg_IPTablesInterval :: "64 word"
  cfg_AddEmptySetToLists :: bool

record ('i, 'p, 'h) DataPlane =
  config :: Config
  applyInBackground :: bool
  iptablesInBackground :: bool
  policyMgr :: 'p
  ipsetMgr :: 'i
  networkID :: string
  nodeName :: string
  endpointCache :: endpointCache
  ioShim :: 'h
  updatePodCache :: updatePodCache
  applyInfo_numBatches :: "64 word"
  netPolInfo_numBatches :: "64 word"
  toDeleteNetPolReferences :: "(string \<times> string list) list"
  calls :: "call list"

definition logCall :: "call \<Rightarrow> ('i, 'p, 'h) DataPlane \<Rightarrow> ('i, 'p, 'h) DataPlane" where
  "logCall c dp = dp\<lparr>calls := calls dp @ [c]\<rparr>"

definition platformOf :: "('i, 'p, 'h) DataPlane \<Rightarrow> ('i, 'p, 'h) platform" where
  "platformOf dp = (ipsetMgr dp, policyMgr dp, ioShim dp, endpointCache dp)"

definition setPlatform :: "('i, 'p, 'h) platform \<Rightarrow> ('i, 'p, 'h) DataPlane \<Rightarrow> ('i, 'p, 'h) DataPlane" where
  "setPlatform v dp =
     (case v of (i, p, h, ec) \<Rightarrow>
        dp\<lparr>ipsetMgr := i, policyMgr := p, ioShim := h, endpointCache := ec\<rparr>)"

text \<open>How a call of the orchestrator ends: it returns an error value (\<open>None\<close> is Go's
  \<open>nil\<close>), it panics on a nil pointer, or it is still inside the pod-update loop when
  the fuel given to that loop is used up.\<close>

datatype outcome = Return "error option" | NilPointerPanic | OutOfFuel

subsection \<open>Set mutation API\<close>

definition AddToSets ::
  "('i, 'p, 'h) ext \<Rightarrow> IPSetMetadata list \<Rightarrow> PodMetadata \<Rightarrow> ('i, 'p, 'h) DataPlane
     \<Rightarrow> error option \<times> ('i, 'p, 'h) DataPlane" where
  "AddToSets x setNames podMetadata dp =
     (case ism_AddToSets x (ipsetMgr dp) setNames (PodIP podMetadata) (PodKey podMetadata) of
        (err, i') \<Rightarrow>
          let dp1 = logCall (Call_AddToSets setNames (PodIP podMetadata) (PodKey podMetadata))
                      (dp\<lparr>ipsetMgr := i'\<rparr>)
          in (case err of
                Some e \<Rightarrow> (Some (Wrapf ''[DataPlane] error while adding to set'' e), dp1)
              | None \<Rightarrow>
                  if shouldUpdatePod x \<and> NodeName podMetadata = nodeName dp1 then
                    (case enqueue (updatePodCache dp1) podMetadata of
                       (entry, q) \<Rightarrow>
                         (None, dp1\<lparr>updatePodCache :=
                            store_entry q (updateIPSetsToAdd (GetPrefixName x) entry setNames)\<rparr>))
                  else (None, dp1)))"

definition RemoveFromSets ::
  "('i, 'p, 'h) ext \<Rightarrow> IPSetMetadata list \<Rightarrow> PodMetadata \<Rightarrow> ('i, 'p, 'h) DataPlane
     \<Rightarrow> error option \<times> ('i, 'p, 'h) DataPlane" where
  "RemoveFromSets x setNames podMetadata dp =
     (case ism_RemoveFromSets x (ipsetMgr dp) setNames (PodIP podMetadata) (PodKey podMetadata) of
        (err, i') \<Rightarrow>
          let dp1 = logCall (Call_RemoveFromSets setNames (PodIP podMetadata) (PodKey podMetadata))
                      (dp\<lparr>ipsetMgr := i'\<rparr>)
          in (case err of
                Some e \<Rightarrow> (Some (Wrapf ''[DataPlane] error while removing from set'' e), dp1)
              | None \<Rightarrow>
                  if shouldUpdatePod x \<and> NodeName podMetadata = nodeName dp1 then
                    (case enqueue (updatePodCache dp1) podMetadata of
                       (entry, q) \<Rightarrow>
                         (None, dp1\<lparr>updatePodCache :=
                            store_entry q (updateIPSetsToRemove (GetPrefixName x) entry setNames)\<rparr>))
                  else (None, dp1)))"

subsection \<open>Apply / flush of the set path\<close>

definition contextBackground :: string where "contextBackground = ''BACKGROUND''"
definition contextApplyDP :: string where "contextApplyDP = ''APPLY-DP''"
definition contextAddNetPol :: string where "contextAddNetPol = ''ADD-NETPOL''"
definition contextDelNetPol :: string where "contextDelNetPol = ''DEL-NETPOL''"

text \<open>The loop \<open>for !dp.updatePodCache.isEmpty() { ... }\<close> of \<open>applyDataPlaneNow\<close>.
  It has no bound in the source: the first argument is the number of iterations the
  model may run, and \<open>OutOfFuel\<close> is returned, with the state reached, when the loop
  is still running after that many.\<close>

fun updatePodsLoop ::
  "nat \<Rightarrow> ('i, 'p, 'h) ext \<Rightarrow> ('i, 'p, 'h) DataPlane \<Rightarrow> outcome \<times> ('i, 'p, 'h) DataPlane" where
  "updatePodsLoop 0 x dp =
     (if isEmpty (updatePodCache dp) then (Return None, dp) else (OutOfFuel, dp))"
| "updatePodsLoop (Suc n) x dp =
     (if isEmpty (updatePodCache dp) then (Return None, dp)
      else
        (case dequeue (updatePodCache dp) of
           (None, q) \<Rightarrow>
             (Return None,
              logCall (Call_SendErrorLogAndMetric
                         ''[DataPlane] failed to dequeue pod while applying the dataplane'')
                (dp\<lparr>updatePodCache := q\<rparr>))
         | (Some pod, q) \<Rightarrow>
             let dp1 = dp\<lparr>updatePodCache := q\<rparr> in
             (case updatePod x (platformOf dp1) pod of
                ((err, pod'), v) \<Rightarrow>
                  let dp2 = logCall (Call_updatePod (upPodKey pod)) (setPlatform v dp1) in
                  (case err of
                     Some e \<Rightarrow>
                       updatePodsLoop n x
                         ((logCall (Call_SendErrorLogAndMetric
                                      ''failed to update pod while applying the dataplane'') dp2)
                            \<lparr>updatePodCache := requeue (updatePodCache dp2) pod'\<rparr>)
                   | None \<Rightarrow> updatePodsLoop n x dp2))))"

text \<open>The second half of \<open>applyDataPlaneNow\<close>, after the commit and the counter
  reset: refresh the endpoints and drain the update-pod queue.\<close>

definition updatePods ::
  "nat \<Rightarrow> ('i, 'p, 'h) ext \<Rightarrow> ('i, 'p, 'h) DataPlane \<Rightarrow> outcome \<times> ('i, 'p, 'h) DataPlane" where
  "updatePods fuel x dp2 =
     (if shouldUpdatePod x then
        if isEmpty (updatePodCache dp2) then (Return None, dp2)
        else
          (case refreshPodEndpoints x (platformOf dp2) of
             (rerr, v) \<Rightarrow>
               let dp3 = logCall Call_refreshPodEndpoints (setPlatform v dp2) in
               (case rerr of
                  Some e \<Rightarrow>
                    (Return None,
                     logCall (Call_SendErrorLogAndMetric
                       ''[DataPlane] failed to refresh endpoints while updating pods'') dp3)
                | None \<Rightarrow> updatePodsLoop fuel x dp3))
      else (Return None, dp2))"

definition applyDataPlaneNow ::
  "nat \<Rightarrow> ('i, 'p, 'h) ext \<Rightarrow> string \<Rightarrow> ('i, 'p, 'h) DataPlane \<Rightarrow> outcome \<times> ('i, 'p, 'h) DataPlane" where
  "applyDataPlaneNow fuel x context dp =
     (case ism_ApplyIPSets x (ipsetMgr dp) of
        (err, i') \<Rightarrow>
          let dp1 = logCall Call_ApplyIPSets (dp\<lparr>ipsetMgr := i'\<rparr>) in
          (case err of
             Some e \<Rightarrow>
               (Return (Some (Wrapf (''[DataPlane] ['' @ context @ ''] error while applying IPSets'') e)),
                dp1)
           | None \<Rightarrow>
               updatePods fuel x
                 (if applyInBackground dp1 then dp1\<lparr>applyInfo_numBatches := 0\<rparr> else dp1)))"

definition incrementBatchAndApplyIfNeeded ::
  "nat \<Rightarrow> ('i, 'p, 'h) ext \<Rightarrow> string \<Rightarrow> ('i, 'p, 'h) DataPlane \<Rightarrow> outcome \<times> ('i, 'p, 'h) DataPlane" where
  "incrementBatchAndApplyIfNeeded fuel x context dp =
     (let dp1 = dp\<lparr>applyInfo_numBatches := applyInfo_numBatches dp + 1\<rparr>;
          newCount = applyInfo_numBatches dp1
      in if cfg_ApplyMaxBatches (config dp1) \<le>s newCount
         then applyDataPlaneNow fuel x context dp1
         else (Return None, dp1))"

definition ApplyDataPlane ::
  "nat \<Rightarrow> ('i, 'p, 'h) ext \<Rightarrow> ('i, 'p, 'h) DataPlane \<Rightarrow> outcome \<times> ('i, 'p, 'h) DataPlane" where
  "ApplyDataPlane fuel x dp =
     (if applyInBackground dp then incrementBatchAndApplyIfNeeded fuel x contextApplyDP dp
      else applyDataPlaneNow fuel x contextApplyDP dp)"

subsection \<open>Set references of a policy\<close>

text \<open>First loop of \<open>createIPSetsAndReferences\<close>: create each set and add the
  reference; the first failing \<open>AddReference\<close> ends the function.\<close>

fun createReferences ::
  "('i, 'p, 'h) ext \<Rightarrow> string \<Rightarrow> TranslatedIPSet list \<Rightarrow> string \<Rightarrow> ReferenceType
     \<Rightarrow> ('i, 'p, 'h) DataPlane \<Rightarrow> error option \<times> ('i, 'p, 'h) DataPlane" where
  "createReferences x npmErrorString [] netpolName referenceType dp = (None, dp)"
| "createReferences x npmErrorString (s # sets) netpolName referenceType dp =
     (let dp1 = logCall (Call_CreateIPSets [Metadata s])
                  (dp\<lparr>ipsetMgr := ism_CreateIPSets x (ipsetMgr dp) [Metadata s]\<rparr>)
      in case ism_AddReference x (ipsetMgr dp1) (Metadata s) netpolName referenceType of
           (err, i') \<Rightarrow>
             let dp2 = logCall (Call_AddReference (Metadata s) netpolName referenceType)
                         (dp1\<lparr>ipsetMgr := i'\<rparr>)
             in (case err of
                   Some e \<Rightarrow>
                     (Some (NPMError npmErrorString ''[DataPlane] failed to add reference with err'' e), dp2)
                 | None \<Rightarrow> createReferences x npmErrorString sets netpolName referenceType dp2))"

fun addIPBlocks ::
  "('i, 'p, 'h) ext \<Rightarrow> string \<Rightarrow> IPSetMetadata \<Rightarrow> string list
     \<Rightarrow> ('i, 'p, 'h) DataPlane \<Rightarrow> error option \<times> ('i, 'p, 'h) DataPlane" where
  "addIPBlocks x npmErrorString m [] dp = (None, dp)"
| "addIPBlocks x npmErrorString m (ipblock # rest) dp =
     (case ism_AddToSets x (ipsetMgr dp) [m] ipblock [] of
        (err, i') \<Rightarrow>
          let dp1 = logCall (Call_AddToSets [m] ipblock []) (dp\<lparr>ipsetMgr := i'\<rparr>)
          in (case err of
                Some e \<Rightarrow>
                  (Some (NPMError npmErrorString
                     ''[DataPlane] failed to AddToSet in addIPSetReferences with err'' e), dp1)
              | None \<Rightarrow> addIPBlocks x npmErrorString m rest dp1))"

fun createMembers ::
  "('i, 'p, 'h) ext \<Rightarrow> string \<Rightarrow> TranslatedIPSet list
     \<Rightarrow> ('i, 'p, 'h) DataPlane \<Rightarrow> error option \<times> ('i, 'p, 'h) DataPlane" where
  "createMembers x npmErrorString [] dp = (None, dp)"
| "createMembers x npmErrorString (s # sets) dp =
     (if Type (Metadata s) = CIDRBlocks then
        (case addIPBlocks x npmErrorString (Metadata s) (Members s) dp of
           (Some e, dp1) \<Rightarrow> (Some e, dp1)
         | (None, dp1) \<Rightarrow> createMembers x npmErrorString sets dp1)
      else if Type (Metadata s) = NestedLabelOfPod \<and> length (Members s) > 0 then
        (case ism_AddToLists x (ipsetMgr dp) [Metadata s] (GetMembersOfTranslatedSets x (Members s)) of
           (err, i') \<Rightarrow>
             let dp1 = logCall (Call_AddToLists [Metadata s] (GetMembersOfTranslatedSets x (Members s)))
                         (dp\<lparr>ipsetMgr := i'\<rparr>)
             in (case err of
                   Some e \<Rightarrow>
                     (Some (NPMError npmErrorString
                        ''[DataPlane] failed to AddToList in addIPSetReferences with err'' e), dp1)
                 | None \<Rightarrow> createMembers x npmErrorString sets dp1))
      else createMembers x npmErrorString sets dp)"

definition createIPSetsAndReferences ::
  "('i, 'p, 'h) ext \<Rightarrow> TranslatedIPSet list \<Rightarrow> string \<Rightarrow> ReferenceType
     \<Rightarrow> ('i, 'p, 'h) DataPlane \<Rightarrow> error option \<times> ('i, 'p, 'h) DataPlane" where
  "createIPSetsAndReferences x sets netpolName referenceType dp =
     (let npmErrorString =
            (if referenceType = NetPolType then ''AddNetPolReference'' else ''AddSelectorReference'')
      in case createReferences x npmErrorString sets netpolName referenceType dp of
           (Some e, dp1) \<Rightarrow> (Some e, dp1)
         | (None, dp1) \<Rightarrow> createMembers x npmErrorString sets dp1)"

text \<open>\<open>m[k] = append(m[k], v)\<close> on the pending-cleanup table.\<close>

fun appendToDelete :: "string \<Rightarrow> string \<Rightarrow> (string \<times> string list) list \<Rightarrow> (string \<times> string list) list" where
  "appendToDelete k v [] = [(k, [v])]"
| "appendToDelete k v ((k', vs) # rest) =
     (if k' = k then (k', vs @ [v]) # rest else (k', vs) # appendToDelete k v rest)"

definition deleteReference ::
  "('i, 'p, 'h) ext \<Rightarrow> string \<Rightarrow> string \<Rightarrow> ReferenceType
     \<Rightarrow> ('i, 'p, 'h) DataPlane \<Rightarrow> ('i, 'p, 'h) DataPlane" where
  "deleteReference x setName referenceName referenceType dp =
     (case ism_DeleteReference x (ipsetMgr dp) setName referenceName referenceType of
        (err, i') \<Rightarrow>
          logCall (Call_DeleteReference setName referenceName referenceType) (dp\<lparr>ipsetMgr := i'\<rparr>))"

text \<open>First loop of \<open>deleteIPSetsAndReferences\<close>.  Under \<open>iptablesInBackground\<close> the
  temporary reference \<open>"TMP" + netpolName\<close> is added first; when that fails the loop
  continues with the next set, and the real reference of this set is not deleted.\<close>

fun deleteReferences ::
  "('i, 'p, 'h) ext \<Rightarrow> TranslatedIPSet list \<Rightarrow> string \<Rightarrow> ReferenceType
     \<Rightarrow> ('i, 'p, 'h) DataPlane \<Rightarrow> ('i, 'p, 'h) DataPlane" where
  "deleteReferences x [] netpolName referenceType dp = dp"
| "deleteReferences x (s # sets) netpolName referenceType dp =
     (let tmp = ''TMP'' @ netpolName;
          prefixName = GetPrefixName x (Metadata s)
      in if iptablesInBackground dp then
           (case ism_AddReference x (ipsetMgr dp) (Metadata s) tmp referenceType of
              (err, i') \<Rightarrow>
                let dp1 = logCall (Call_AddReference (Metadata s) tmp referenceType)
                            (dp\<lparr>ipsetMgr := i'\<rparr>)
                in (case err of
                      Some e \<Rightarrow> deleteReferences x sets netpolName referenceType dp1
                    | None \<Rightarrow>
                        deleteReferences x sets netpolName referenceType
                          (deleteReference x prefixName netpolName referenceType
                             (dp1\<lparr>toDeleteNetPolReferences :=
                                    appendToDelete prefixName netpolName (toDeleteNetPolReferences dp1)\<rparr>))))
         else deleteReferences x sets netpolName referenceType
                (deleteReference x prefixName netpolName referenceType dp))"

fun removeIPBlocks ::
  "('i, 'p, 'h) ext \<Rightarrow> string \<Rightarrow> IPSetMetadata \<Rightarrow> string list
     \<Rightarrow> ('i, 'p, 'h) DataPlane \<Rightarrow> error option \<times> ('i, 'p, 'h) DataPlane" where
  "removeIPBlocks x npmErrorString m [] dp = (None, dp)"
| "removeIPBlocks x npmErrorString m (ipblock # rest) dp =
     (case ism_RemoveFromSets x (ipsetMgr dp) [m] ipblock [] of
        (err, i') \<Rightarrow>
          let dp1 = logCall (Call_RemoveFromSets [m] ipblock []) (dp\<lparr>ipsetMgr := i'\<rparr>)
          in (case err of
                Some e \<Rightarrow>
                  (Some (NPMError npmErrorString
                     ''[DataPlane] failed to RemoveFromSet in deleteIPSetReferences with err'' e), dp1)
              | None \<Rightarrow> removeIPBlocks x npmErrorString m rest dp1))"

fun deleteMembers ::
  "('i, 'p, 'h) ext \<Rightarrow> string \<Rightarrow> TranslatedIPSet list
     \<Rightarrow> ('i, 'p, 'h) DataPlane \<Rightarrow> error option \<times> ('i, 'p, 'h) DataPlane" where
  "deleteMembers x npmErrorString [] dp = (None, dp)"
| "deleteMembers x npmErrorString (s # sets) dp =
     (if Type (Metadata s) = CIDRBlocks then
        (case removeIPBlocks x npmErrorString (Metadata s) (Members s) dp of
           (Some e, dp1) \<Rightarrow> (Some e, dp1)
         | (None, dp1) \<Rightarrow> deleteMembers x npmErrorString sets dp1)
      else if GetSetKind x (Metadata s) = ListSet \<and> length (Members s) > 0 then
        (case ism_RemoveFromList x (ipsetMgr dp) (Metadata s) (GetMembersOfTranslatedSets x (Members s)) of
           (err, i') \<Rightarrow>
             let dp1 = logCall (Call_RemoveFromList (Metadata s) (GetMembersOfTranslatedSets x (Members s)))
                         (dp\<lparr>ipsetMgr := i'\<rparr>)
             in (case err of
                   Some e \<Rightarrow>
                     (Some (NPMError npmErrorString
                        ''[DataPlane] failed to RemoveFromList in deleteIPSetReferences with err'' e), dp1)
                 | None \<Rightarrow> deleteMembers x npmErrorString sets dp1))
      else deleteMembers x npmErrorString sets dp)"

definition deleteIPSetsAndReferences ::
  "('i, 'p, 'h) ext \<Rightarrow> TranslatedIPSet list \<Rightarrow> string \<Rightarrow> ReferenceType
     \<Rightarrow> ('i, 'p, 'h) DataPlane \<Rightarrow> error option \<times> ('i, 'p, 'h) DataPlane" where
  "deleteIPSetsAndReferences x sets netpolName referenceType dp =
     (let dp1 = deleteReferences x sets netpolName referenceType dp;
          npmErrorString =
            (if referenceType = NetPolType then ''DeleteNetPolReference'' else ''DeleteSelectorReference'')
      in deleteMembers x npmErrorString sets dp1)"

subsection \<open>Flush of the rule path\<close>

text \<open>The release loop of \<open>reconcileDirtyNetPolsNow\<close>, as written in the source: the
  key of each table entry is bound to \<open>policyKey\<close> and its values to \<open>ipsetName\<close>.\<close>

definition releaseEntry ::
  "('i, 'p, 'h) ext \<Rightarrow> string \<times> string list \<Rightarrow> ('i, 'p, 'h) DataPlane \<Rightarrow> ('i, 'p, 'h) DataPlane" where
  "releaseEntry x entry dp =
     (case entry of (policyKey, ipsetNames) \<Rightarrow>
        fold (\<lambda>ipsetName. deleteReference x ipsetName (''TMP'' @ policyKey) NetPolType) ipsetNames dp)"

definition reconcileDirtyNetPolsNow ::
  "('i, 'p, 'h) ext \<Rightarrow> string \<Rightarrow> ('i, 'p, 'h) DataPlane \<Rightarrow> error option \<times> ('i, 'p, 'h) DataPlane" where
  "reconcileDirtyNetPolsNow x context dp =
     (case pm_ReconcileDirtyNetPols x (policyMgr dp) of
        (err, p') \<Rightarrow>
          let dp1 = logCall Call_ReconcileDirtyNetPols (dp\<lparr>policyMgr := p'\<rparr>) in
          (case err of
             Some e \<Rightarrow>
               (Some (Wrapf (''[DataPlane] ['' @ context @ ''] failed to reconcile dirty network policies. err'') e),
                logCall (Call_SendErrorLogAndMetric
                           ''[DataPlane] failed to reconcile dirty network policies'') dp1)
           | None \<Rightarrow>
               let dp2 = dp1\<lparr>netPolInfo_numBatches := 0\<rparr>;
                   dp3 = fold (releaseEntry x) (toDeleteNetPolReferences dp2) dp2
               in (None, dp3\<lparr>toDeleteNetPolReferences := []\<rparr>)))"

definition incrementBatchAndReconcileDirtyNetPolsIfNeeded ::
  "('i, 'p, 'h) ext \<Rightarrow> string \<Rightarrow> ('i, 'p, 'h) DataPlane \<Rightarrow> error option \<times> ('i, 'p, 'h) DataPlane" where
  "incrementBatchAndReconcileDirtyNetPolsIfNeeded x context dp =
     (if \<not> iptablesInBackground dp then (None, dp)
      else
        let dp1 = dp\<lparr>netPolInfo_numBatches := netPolInfo_numBatches dp + 1\<rparr>;
            newCount = netPolInfo_numBatches dp1
        in if cfg_IPTablesMaxBatches (config dp1) \<le>s newCount
           then reconcileDirtyNetPolsNow x context dp1
           else (None, dp1))"

subsection \<open>Policy lifecycle\<close>

definition AddPolicy ::
  "nat \<Rightarrow> ('i, 'p, 'h) ext \<Rightarrow> NPMNetworkPolicy \<Rightarrow> ('i, 'p, 'h) DataPlane
     \<Rightarrow> outcome \<times> ('i, 'p, 'h) DataPlane" where
  "AddPolicy fuel x policy dp =
     (case createIPSetsAndReferences x (AllPodSelectorIPSets x policy) (PolicyKey policy) SelectorType dp of
        (Some e, dp1) \<Rightarrow>
          (Return (Some (Wrapf ''[DataPlane] error while adding Selector IPSet references'' e)), dp1)
      | (None, dp1) \<Rightarrow>
          (case createIPSetsAndReferences x (RuleIPSets policy) (PolicyKey policy) NetPolType dp1 of
             (Some e, dp2) \<Rightarrow>
               (Return (Some (Wrapf ''[DataPlane] error while adding Rule IPSet references'' e)), dp2)
           | (None, dp2) \<Rightarrow>
               (case applyDataPlaneNow fuel x contextAddNetPol dp2 of
                  (Return None, dp3) \<Rightarrow>
                    (case getEndpointsToApplyPolicy x (platformOf dp3) policy of
                       ((gerr, endpointList), v) \<Rightarrow>
                         let dp4 = logCall (Call_getEndpointsToApplyPolicy (PolicyKey policy))
                                     (setPlatform v dp3)
                         in (case gerr of
                               Some e \<Rightarrow>
                                 (Return (Some (Wrapf
                                    ''[DataPlane] error while getting endpoints to apply policy after applying dataplane'' e)),
                                  dp4)
                             | None \<Rightarrow>
                                 (case pm_AddPolicy x (policyMgr dp4) policy endpointList of
                                    (aerr, p') \<Rightarrow>
                                      let dp5 = logCall (Call_PMAddPolicy (PolicyKey policy))
                                                  (dp4\<lparr>policyMgr := p'\<rparr>)
                                      in (case aerr of
                                            Some e \<Rightarrow>
                                              (Return (Some (Wrapf ''[DataPlane] error while adding policy'' e)), dp5)
                                          | None \<Rightarrow>
                                              (case incrementBatchAndReconcileDirtyNetPolsIfNeeded x contextAddNetPol dp5 of
                                                 (r, dp6) \<Rightarrow> (Return r, dp6))))))
                | (out, dp3) \<Rightarrow> (out, dp3))))"

text \<open>The endpoint-cache pruning of \<open>RemovePolicy\<close>: \<open>endpoints\<close> is the snapshot
  taken before the rule engine removed the policy, \<open>podEndpoints\<close> is
  \<open>policy.PodEndpoints\<close> read after it.\<close>

definition pruneEndpoint ::
  "string \<Rightarrow> (string \<times> string) list \<Rightarrow> string \<Rightarrow> endpointCache \<Rightarrow> endpointCache" where
  "pruneEndpoint policyKey podEndpoints podIP cache =
     (if map_of podEndpoints podIP = None then
        (case cache podIP of
           Some endpoint \<Rightarrow>
             cache(podIP \<mapsto> endpoint\<lparr>netPolReference := netPolReference endpoint - {policyKey}\<rparr>)
         | None \<Rightarrow> cache)
      else cache)"

definition pruneEndpointCache ::
  "string \<Rightarrow> (string \<times> string) list \<Rightarrow> (string \<times> string) list \<Rightarrow> endpointCache \<Rightarrow> endpointCache" where
  "pruneEndpointCache policyKey endpoints podEndpoints cache =
     fold (pruneEndpoint policyKey podEndpoints) (map fst endpoints) cache"

text \<open>The end of \<open>RemovePolicy\<close>, after the endpoint cache has been pruned: release
  the rule-set references, then the selector-set references, apply, and count one dirty
  policy.\<close>

definition releasePolicyReferences ::
  "nat \<Rightarrow> ('i, 'p, 'h) ext \<Rightarrow> NPMNetworkPolicy \<Rightarrow> ('i, 'p, 'h) DataPlane
     \<Rightarrow> outcome \<times> ('i, 'p, 'h) DataPlane" where
  "releasePolicyReferences fuel x policy dp2 =
     (case deleteIPSetsAndReferences x (RuleIPSets policy) (PolicyKey policy) NetPolType dp2 of
        (Some e, dp3) \<Rightarrow> (Return (Some e), dp3)
      | (None, dp3) \<Rightarrow>
          (case deleteIPSetsAndReferences x (AllPodSelectorIPSets x policy)
                  (PolicyKey policy) SelectorType dp3 of
             (Some e, dp4) \<Rightarrow> (Return (Some e), dp4)
           | (None, dp4) \<Rightarrow>
               (case applyDataPlaneNow fuel x contextApplyDP dp4 of
                  (Return None, dp5) \<Rightarrow>
                    (case incrementBatchAndReconcileDirtyNetPolsIfNeeded x contextDelNetPol dp5 of
                       (r, dp6) \<Rightarrow> (Return r, dp6))
                | (out, dp5) \<Rightarrow> (out, dp5))))"

text \<open>\<open>policy\<close> is a pointer into the PolicyManager: \<open>policy.PodEndpoints\<close> is read
  before the check of \<open>ok\<close>, which panics on a nil pointer; after
  \<open>policyMgr.RemovePolicy\<close> the fields are read from the manager's new state.\<close>

definition RemovePolicy ::
  "nat \<Rightarrow> ('i, 'p, 'h) ext \<Rightarrow> string \<Rightarrow> ('i, 'p, 'h) DataPlane
     \<Rightarrow> outcome \<times> ('i, 'p, 'h) DataPlane" where
  "RemovePolicy fuel x policyKey dp =
     (case pm_GetPolicy x (policyMgr dp) policyKey of
        (None, ok) \<Rightarrow> (NilPointerPanic, dp)
      | (Some ptr, ok) \<Rightarrow>
          let endpoints = PodEndpoints (pm_deref x (policyMgr dp) ptr) in
          if \<not> ok then (Return None, dp)
          else
            (case pm_RemovePolicy x (policyMgr dp) (PolicyKey (pm_deref x (policyMgr dp) ptr)) of
               (err, p') \<Rightarrow>
                 let dp1 = logCall (Call_PMRemovePolicy (PolicyKey (pm_deref x (policyMgr dp) ptr)))
                             (dp\<lparr>policyMgr := p'\<rparr>)
                 in (case err of
                       Some e \<Rightarrow> (Return (Some (Wrapf ''[DataPlane] error while removing policy'' e)), dp1)
                     | None \<Rightarrow>
                         let policy = pm_deref x (policyMgr dp1) ptr;
                             dp2 = (if shouldUpdatePod x then
                                      dp1\<lparr>endpointCache :=
                                            pruneEndpointCache policyKey endpoints (PodEndpoints policy)
                                              (endpointCache dp1)\<rparr>
                                    else dp1)
                         in releasePolicyReferences fuel x policy dp2)))"

subsection \<open>Construction\<close>


section \<open>Auxiliary notions, example collaborators and states\<close>

text \<open>Concrete collaborators on which the theorems below are instantiated: \<open>okExt\<close>
  is a Windows dataplane whose collaborators always succeed; the variants replace single
  operations.  Between them stand the notions in which the properties are stated: kinds
  of logged calls, and a caller that repeats \<open>ApplyDataPlane\<close>.\<close>

definition okExt :: "(nat, nat, nat) ext" where
  "okExt =
     \<lparr>IsWindowsDP = True,
      shouldUpdatePod = True,
      GetPrefixName = Name,
      GetSetKind = (\<lambda>m. if Type m = NestedLabelOfPod then ListSet else HashSet),
      GetMembersOfTranslatedSets = map (\<lambda>n. \<lparr>Name = n, Type = OtherSetType 0\<rparr>),
      AllPodSelectorIPSets = (\<lambda>p. []),
      NewIPSetManager = (\<lambda>b h. 0),
      NewPolicyManager = (\<lambda>h. 0),
      ism_CreateIPSets = (\<lambda>i ms. i),
      ism_AddReference = (\<lambda>i m n t. (None, i)),
      ism_DeleteReference = (\<lambda>i s n t. (None, i)),
      ism_AddToSets = (\<lambda>i ms ip k. (None, i)),
      ism_RemoveFromSets = (\<lambda>i ms ip k. (None, i)),
      ism_AddToLists = (\<lambda>i l ms. (None, i)),
      ism_RemoveFromList = (\<lambda>i l ms. (None, i)),
      ism_ApplyIPSets = (\<lambda>i. (None, i)),
      pm_GetPolicy = (\<lambda>p k. (None, False)),
      pm_deref = (\<lambda>p a. \<lparr>PolicyKey = [], RuleIPSets = [], PodEndpoints = []\<rparr>),
      pm_AddPolicy = (\<lambda>p pol eps. (None, p)),
      pm_RemovePolicy = (\<lambda>p k. (None, Suc p)),
      pm_ReconcileDirtyNetPols = (\<lambda>p. (None, p)),
      getEndpointsToApplyPolicy = (\<lambda>v pol. ((None, []), v)),
      refreshPodEndpoints = (\<lambda>v. (None, v)),
      updatePod = (\<lambda>v pod. ((None, pod), v)),
      bootupDataPlane = (\<lambda>v. (None, v))\<rparr>"

definition cfg0 :: Config where
  "cfg0 = \<lparr>cfg_ApplyInBackground = True, cfg_ApplyMaxBatches = 3, cfg_ApplyInterval = 500,
            cfg_IPTablesInBackground = True, cfg_IPTablesMaxBatches = 2, cfg_IPTablesInterval = 500,
            cfg_AddEmptySetToLists = False\<rparr>"

definition dp0 :: "(nat, nat, nat) DataPlane" where
  "dp0 = \<lparr>config = cfg0, applyInBackground = True, iptablesInBackground = False,
          policyMgr = 0, ipsetMgr = 0, networkID = [], nodeName = ''node1'',
          endpointCache = Map.empty, ioShim = 0, updatePodCache = [],
          applyInfo_numBatches = 0, netPolInfo_numBatches = 0,
          toDeleteNetPolReferences = [], calls = []\<rparr>"

definition pod1 :: PodMetadata where
  "pod1 = \<lparr>PodKey = ''ns/pod1'', PodIP = ''10.0.0.5'', NodeName = ''node1''\<rparr>"

definition failingSetsExt :: "(nat, nat, nat) ext" where
  "failingSetsExt =
     okExt\<lparr>ism_AddToSets := (\<lambda>i ms ip k. (Some (External ''ipset''), Suc i)),
           ism_RemoveFromSets := (\<lambda>i ms ip k. (Some (External ''ipset''), Suc i))\<rparr>"

definition failingFlushExt :: "(nat, nat, nat) ext" where
  "failingFlushExt =
     okExt\<lparr>ism_ApplyIPSets := (\<lambda>i. (Some (External ''ipset restore''), i)),
           pm_ReconcileDirtyNetPols := (\<lambda>p. (Some (External ''iptables restore''), p))\<rparr>"

definition dpPending :: "(nat, nat, nat) DataPlane" where
  "dpPending = dp0\<lparr>applyInfo_numBatches := 2, netPolInfo_numBatches := 1,
                   toDeleteNetPolReferences := [(''s'', [''p''])]\<rparr>"







text \<open>Kinds of logged calls: those by which sets, references and members are created,
  those that take them away again, and those of a set-apply flush after its commit.\<close>

fun isSetCreationCall :: "call \<Rightarrow> bool" where
  "isSetCreationCall (Call_CreateIPSets ms) = True"
| "isSetCreationCall (Call_AddReference m n t) = True"
| "isSetCreationCall (Call_AddToSets ms ip k) = True"
| "isSetCreationCall (Call_AddToLists l ms) = True"
| "isSetCreationCall c = False"

fun isRollbackCall :: "call \<Rightarrow> bool" where
  "isRollbackCall (Call_DeleteReference s n t) = True"
| "isRollbackCall (Call_RemoveFromSets ms ip k) = True"
| "isRollbackCall (Call_RemoveFromList l ms) = True"
| "isRollbackCall c = False"

fun isPodUpdateCall :: "call \<Rightarrow> bool" where
  "isPodUpdateCall Call_refreshPodEndpoints = True"
| "isPodUpdateCall (Call_updatePod k) = True"
| "isPodUpdateCall (Call_SendErrorLogAndMetric m) = True"
| "isPodUpdateCall c = False"

definition selSet :: TranslatedIPSet where
  "selSet = \<lparr>Metadata = \<lparr>Name = ''sel1'', Type = OtherSetType 0\<rparr>, Members = []\<rparr>"

definition ruleSet :: TranslatedIPSet where
  "ruleSet = \<lparr>Metadata = \<lparr>Name = ''rule1'', Type = CIDRBlocks\<rparr>, Members = [''10.0.0.0/8'']\<rparr>"

definition polA :: NPMNetworkPolicy where
  "polA = \<lparr>PolicyKey = ''ns/p'', RuleIPSets = [ruleSet], PodEndpoints = []\<rparr>"

definition selExt :: "(nat, nat, nat) ext" where
  "selExt = okExt\<lparr>AllPodSelectorIPSets := (\<lambda>p. [selSet])\<rparr>"

definition failSelectorExt :: "(nat, nat, nat) ext" where
  "failSelectorExt =
     selExt\<lparr>ism_AddReference :=
       (\<lambda>i m n t. if t = SelectorType then (Some (External ''no selector''), i) else (None, i))\<rparr>"

definition failRuleExt :: "(nat, nat, nat) ext" where
  "failRuleExt =
     selExt\<lparr>ism_AddReference :=
       (\<lambda>i m n t. if t = NetPolType then (Some (External ''no rule set''), i) else (None, i))\<rparr>"

definition failEndpointsExt :: "(nat, nat, nat) ext" where
  "failEndpointsExt =
     selExt\<lparr>getEndpointsToApplyPolicy := (\<lambda>v pol. ((Some (External ''hns''), []), v))\<rparr>"

definition failInstallExt :: "(nat, nat, nat) ext" where
  "failInstallExt = selExt\<lparr>pm_AddPolicy := (\<lambda>p pol eps. (Some (External ''acl''), p))\<rparr>"



definition batchedExt :: "(nat, nat, nat) ext" where
  "batchedExt = okExt\<lparr>IsWindowsDP := False, shouldUpdatePod := False\<rparr>"

definition dpBatched :: "(nat, nat, nat) DataPlane" where
  "dpBatched = dp0\<lparr>applyInBackground := False, iptablesInBackground := True\<rparr>"

text \<open>A caller that calls \<open>ApplyDataPlane\<close> \<open>k\<close> times in a row; the result is the
  state after the last call.\<close>

fun applyCalls ::
  "nat \<Rightarrow> nat \<Rightarrow> ('i, 'p, 'h) ext \<Rightarrow> ('i, 'p, 'h) DataPlane \<Rightarrow> ('i, 'p, 'h) DataPlane" where
  "applyCalls 0 fuel x dp = dp"
| "applyCalls (Suc k) fuel x dp = snd (ApplyDataPlane fuel x (applyCalls k fuel x dp))"

definition dpOne :: "(nat, nat, nat) DataPlane" where
  "dpOne = dp0\<lparr>config := cfg0\<lparr>cfg_ApplyMaxBatches := 1\<rparr>\<rparr>"

definition podFailExt :: "(nat, nat, nat) ext" where
  "podFailExt = okExt\<lparr>updatePod := (\<lambda>v pod. ((Some (External ''hns''), pod), v))\<rparr>"

text \<open>A platform whose \<open>updatePod\<close> fails while the host state is 0 and sets it to 1.\<close>

definition podFailOnceExt :: "(nat, nat, nat) ext" where
  "podFailOnceExt =
     okExt\<lparr>updatePod := (\<lambda>v pod. case v of (i, p, h, ec) \<Rightarrow>
              if h = 0 then ((Some (External ''hns''), pod), (i, p, Suc 0, ec))
              else ((None, pod), v))\<rparr>"

definition dpQueued :: "(nat, nat, nat) DataPlane" where
  "dpQueued = dp0\<lparr>updatePodCache := [newUpdateNPMPod pod1]\<rparr>"

text \<open>Modelled from the spec: the reference counting of the IPSetManager, which is outside
  dataplane.go.  A set that exists holds, for each reference type, the names of its
  references; \<open>AddReference\<close> and \<open>DeleteReference\<close> fail on a set that does not
  exist; adding and removing members leaves the references alone.\<close>

type_synonym refStore = "string \<rightharpoonup> (ReferenceType \<Rightarrow> string set)"

definition refAddReference ::
  "refStore \<Rightarrow> IPSetMetadata \<Rightarrow> string \<Rightarrow> ReferenceType \<Rightarrow> error option \<times> refStore" where
  "refAddReference i m n t =
     (case i (Name m) of
        None \<Rightarrow> (Some (External ''ipset does not exist''), i)
      | Some r \<Rightarrow> (None, i(Name m \<mapsto> r(t := insert n (r t)))))"

definition refDeleteReference ::
  "refStore \<Rightarrow> string \<Rightarrow> string \<Rightarrow> ReferenceType \<Rightarrow> error option \<times> refStore" where
  "refDeleteReference i s n t =
     (case i s of
        None \<Rightarrow> (Some (External ''ipset does not exist''), i)
      | Some r \<Rightarrow> (None, i(s \<mapsto> r(t := r t - {n}))))"

definition withReferenceCounting :: "(refStore, 'p, 'h) ext \<Rightarrow> (refStore, 'p, 'h) ext" where
  "withReferenceCounting x =
     x\<lparr>GetPrefixName := Name,
       ism_AddReference := refAddReference,
       ism_DeleteReference := refDeleteReference,
       ism_RemoveFromSets := (\<lambda>i ms ip k. (fst (ism_RemoveFromSets x i ms ip k), i)),
       ism_RemoveFromList := (\<lambda>i l ms. (fst (ism_RemoveFromList x i l ms), i))\<rparr>"

definition holdsReference :: "refStore \<Rightarrow> string \<Rightarrow> ReferenceType \<Rightarrow> string \<Rightarrow> bool" where
  "holdsReference i s t n = (case i s of None \<Rightarrow> False | Some r \<Rightarrow> n \<in> r t)"

definition refOkExt :: "(refStore, nat, nat) ext" where
  "refOkExt =
     \<lparr>IsWindowsDP = False,
      shouldUpdatePod = False,
      GetPrefixName = Name,
      GetSetKind = (\<lambda>m. if Type m = NestedLabelOfPod then ListSet else HashSet),
      GetMembersOfTranslatedSets = map (\<lambda>n. \<lparr>Name = n, Type = OtherSetType 0\<rparr>),
      AllPodSelectorIPSets = (\<lambda>p. []),
      NewIPSetManager = (\<lambda>b h. Map.empty),
      NewPolicyManager = (\<lambda>h. 0),
      ism_CreateIPSets = (\<lambda>i ms. i),
      ism_AddReference = refAddReference,
      ism_DeleteReference = refDeleteReference,
      ism_AddToSets = (\<lambda>i ms ip k. (None, i)),
      ism_RemoveFromSets = (\<lambda>i ms ip k. (None, i)),
      ism_AddToLists = (\<lambda>i l ms. (None, i)),
      ism_RemoveFromList = (\<lambda>i l ms. (None, i)),
      ism_ApplyIPSets = (\<lambda>i. (None, i)),
      pm_GetPolicy = (\<lambda>p k. (None, False)),
      pm_deref = (\<lambda>p a. \<lparr>PolicyKey = [], RuleIPSets = [], PodEndpoints = []\<rparr>),
      pm_AddPolicy = (\<lambda>p pol eps. (None, p)),
      pm_RemovePolicy = (\<lambda>p k. (None, Suc p)),
      pm_ReconcileDirtyNetPols = (\<lambda>p. (None, p)),
      getEndpointsToApplyPolicy = (\<lambda>v pol. ((None, []), v)),
      refreshPodEndpoints = (\<lambda>v. (None, v)),
      updatePod = (\<lambda>v pod. ((None, pod), v)),
      bootupDataPlane = (\<lambda>v. (None, v))\<rparr>"

definition dpRef :: "(refStore, nat, nat) DataPlane" where
  "dpRef = \<lparr>config = cfg0, applyInBackground = False, iptablesInBackground = True,
            policyMgr = 0,
            ipsetMgr = [''rule1'' \<mapsto> (\<lambda>t. if t = NetPolType then {''ns/p''} else {})],
            networkID = [], nodeName = ''node1'',
            endpointCache = Map.empty, ioShim = 0, updatePodCache = [],
            applyInfo_numBatches = 0, netPolInfo_numBatches = 0,
            toDeleteNetPolReferences = [], calls = []\<rparr>"

section \<open>Properties\<close>

subsection \<open>Errors of the set engine leave the update-pod queue alone\<close>

text \<open>C10.  When the IPSetManager's \<open>AddToSets\<close> (\<open>RemoveFromSets\<close>) returns an
  error, the orchestrator's \<open>AddToSets\<close> (\<open>RemoveFromSets\<close>) returns that error
  wrapped, and the update-pod queue is what it was before the call: nothing is enqueued
  or merged, whatever the backend and the pod's node.\<close>

theorem sets_error_keeps_queue:
  "(fst (ism_AddToSets x (ipsetMgr dp) sets (PodIP m) (PodKey m)) = Some e \<longrightarrow>
      fst (AddToSets x sets m dp) = Some (Wrapf ''[DataPlane] error while adding to set'' e) \<and>
      updatePodCache (snd (AddToSets x sets m dp)) = updatePodCache dp) \<and>
   (fst (ism_RemoveFromSets x (ipsetMgr dp) sets (PodIP m) (PodKey m)) = Some e' \<longrightarrow>
      fst (RemoveFromSets x sets m dp) = Some (Wrapf ''[DataPlane] error while removing from set'' e') \<and>
      updatePodCache (snd (RemoveFromSets x sets m dp)) = updatePodCache dp)"
  by (auto simp: AddToSets_def RemoveFromSets_def logCall_def split: prod.splits)

text \<open>The instance: a pod of the local node, on the deferred-apply backend, with a
  failing set engine.\<close>

theorem sets_error_keeps_queue_witness:
  "shouldUpdatePod failingSetsExt \<and> NodeName pod1 = nodeName dp0 \<and>
   fst (ism_AddToSets failingSetsExt (ipsetMgr dp0) [] (PodIP pod1) (PodKey pod1)) = Some (External ''ipset'') \<and>
   fst (ism_RemoveFromSets failingSetsExt (ipsetMgr dp0) [] (PodIP pod1) (PodKey pod1)) = Some (External ''ipset'') \<and>
   fst (AddToSets failingSetsExt [] pod1 dp0) =
     Some (Wrapf ''[DataPlane] error while adding to set'' (External ''ipset'')) \<and>
   updatePodCache (snd (AddToSets failingSetsExt [] pod1 dp0)) = updatePodCache dp0 \<and>
   fst (RemoveFromSets failingSetsExt [] pod1 dp0) =
     Some (Wrapf ''[DataPlane] error while removing from set'' (External ''ipset'')) \<and>
   updatePodCache (snd (RemoveFromSets failingSetsExt [] pod1 dp0)) = updatePodCache dp0"
  using sets_error_keeps_queue [of failingSetsExt dp0 "[]" pod1 "External ''ipset''" "External ''ipset''"]
  by (simp add: failingSetsExt_def okExt_def dp0_def pod1_def)

subsection \<open>A failed flush keeps its batch counter\<close>

text \<open>C5.  If \<open>ApplyIPSets\<close> fails inside \<open>applyDataPlaneNow\<close>, the error is returned
  and the apply-batch counter keeps its value; if \<open>ReconcileDirtyNetPols\<close> fails inside
  \<open>reconcileDirtyNetPolsNow\<close>, the error is returned and the rule-batch counter and the
  pending-cleanup table keep their values.\<close>

theorem flush_error_keeps_counters:
  "(fst (ism_ApplyIPSets x (ipsetMgr dp)) = Some e \<longrightarrow>
      fst (applyDataPlaneNow fuel x context dp) =
        Return (Some (Wrapf (''[DataPlane] ['' @ context @ ''] error while applying IPSets'') e)) \<and>
      applyInfo_numBatches (snd (applyDataPlaneNow fuel x context dp)) = applyInfo_numBatches dp) \<and>
   (fst (pm_ReconcileDirtyNetPols x (policyMgr dp)) = Some e' \<longrightarrow>
      fst (reconcileDirtyNetPolsNow x context dp) =
        Some (Wrapf (''[DataPlane] ['' @ context @ ''] failed to reconcile dirty network policies. err'') e') \<and>
      netPolInfo_numBatches (snd (reconcileDirtyNetPolsNow x context dp)) = netPolInfo_numBatches dp \<and>
      toDeleteNetPolReferences (snd (reconcileDirtyNetPolsNow x context dp)) = toDeleteNetPolReferences dp)"
  by (auto simp: applyDataPlaneNow_def reconcileDirtyNetPolsNow_def logCall_def split: prod.splits)

theorem flush_error_keeps_counters_witness:
  "fst (ism_ApplyIPSets failingFlushExt (ipsetMgr dpPending)) = Some (External ''ipset restore'') \<and>
   fst (pm_ReconcileDirtyNetPols failingFlushExt (policyMgr dpPending)) = Some (External ''iptables restore'') \<and>
   applyInfo_numBatches (snd (applyDataPlaneNow 0 failingFlushExt contextBackground dpPending)) = 2 \<and>
   netPolInfo_numBatches (snd (reconcileDirtyNetPolsNow failingFlushExt contextBackground dpPending)) = 1 \<and>
   toDeleteNetPolReferences (snd (reconcileDirtyNetPolsNow failingFlushExt contextBackground dpPending)) =
     [(''s'', [''p''])]"
  using flush_error_keeps_counters [of failingFlushExt dpPending "External ''ipset restore''" 0
      contextBackground "External ''iptables restore''"]
  by (simp add: failingFlushExt_def okExt_def dpPending_def dp0_def)

subsection \<open>Validation of the apply configuration at construction\<close>






subsection \<open>RemovePolicy on a policy that is not there\<close>

lemma RemovePolicy_nil_policy:
  "pm_GetPolicy x (policyMgr dp) k = (None, ok) \<Longrightarrow> RemovePolicy fuel x k dp = (NilPointerPanic, dp)"
  by (simp add: RemovePolicy_def)

lemma RemovePolicy_not_found_nonnil:
  "pm_GetPolicy x (policyMgr dp) k = (Some ptr, False) \<Longrightarrow> RemovePolicy fuel x k dp = (Return None, dp)"
  by (simp add: RemovePolicy_def)

text \<open>C1.  The claim: for a key that the PolicyManager does not hold, \<open>RemovePolicy\<close>
  returns nil and changes nothing.  The source reads \<open>policy.PodEndpoints\<close> before it
  tests \<open>ok\<close>: when \<open>GetPolicy\<close> answers not-found with a nil policy, the call panics
  instead of returning.\<close>

theorem RemovePolicy_absent_policy_panics:
  "pm_GetPolicy okExt (policyMgr dp0) ''ns/p'' = (None, False) \<and>
   RemovePolicy 0 okExt ''ns/p'' dp0 = (NilPointerPanic, dp0)"
  by (simp add: RemovePolicy_def okExt_def)

subsection \<open>Pruning of the endpoint cache in RemovePolicy\<close>





















subsection \<open>Failures inside AddPolicy\<close>

lemma isSetCreationCall_not_rollback: "isSetCreationCall c \<Longrightarrow> \<not> isRollbackCall c"
  by (cases c) simp_all

lemma isPodUpdateCall_not_rollback: "isPodUpdateCall c \<Longrightarrow> \<not> isRollbackCall c"
  by (cases c) simp_all

lemma createReferences_calls:
  "\<exists>cs. calls (snd (createReferences x es sets n t dp)) = calls dp @ cs \<and>
        (\<forall>c\<in>set cs. isSetCreationCall c)"
proof (induction sets arbitrary: dp)
  case Nil
  then show ?case by simp
next
  case (Cons s sets)
  define dp1 where "dp1 = logCall (Call_CreateIPSets [Metadata s])
                  (dp\<lparr>ipsetMgr := ism_CreateIPSets x (ipsetMgr dp) [Metadata s]\<rparr>)"
  obtain err i' where a: "ism_AddReference x (ipsetMgr dp1) (Metadata s) n t = (err, i')"
    by force
  define dp2 where "dp2 = logCall (Call_AddReference (Metadata s) n t) (dp1\<lparr>ipsetMgr := i'\<rparr>)"
  have c2: "calls dp2 = calls dp @ [Call_CreateIPSets [Metadata s], Call_AddReference (Metadata s) n t]"
    by (simp add: dp2_def dp1_def logCall_def)
  show ?case
  proof (cases err)
    case None
    then have "createReferences x es (s # sets) n t dp = createReferences x es sets n t dp2"
      using a by (simp add: dp1_def [symmetric] dp2_def [symmetric])
    moreover obtain cs where "calls (snd (createReferences x es sets n t dp2)) = calls dp2 @ cs"
      "\<forall>c\<in>set cs. isSetCreationCall c"
      using Cons.IH [of dp2] by blast
    ultimately show ?thesis
      using c2 by auto
  next
    case (Some e)
    then have "snd (createReferences x es (s # sets) n t dp) = dp2"
      using a by (simp add: dp1_def [symmetric] dp2_def [symmetric])
    then show ?thesis
      using c2 by auto
  qed
qed

lemma addIPBlocks_calls:
  "\<exists>cs. calls (snd (addIPBlocks x es m bs dp)) = calls dp @ cs \<and>
        (\<forall>c\<in>set cs. isSetCreationCall c)"
proof (induction bs arbitrary: dp)
  case Nil
  then show ?case by simp
next
  case (Cons b bs)
  obtain err i' where a: "ism_AddToSets x (ipsetMgr dp) [m] b [] = (err, i')"
    by force
  define dp1 where "dp1 = logCall (Call_AddToSets [m] b []) (dp\<lparr>ipsetMgr := i'\<rparr>)"
  have c1: "calls dp1 = calls dp @ [Call_AddToSets [m] b []]"
    by (simp add: dp1_def logCall_def)
  show ?case
  proof (cases err)
    case None
    then have "addIPBlocks x es m (b # bs) dp = addIPBlocks x es m bs dp1"
      using a by (simp add: dp1_def [symmetric])
    moreover obtain cs where "calls (snd (addIPBlocks x es m bs dp1)) = calls dp1 @ cs"
      "\<forall>c\<in>set cs. isSetCreationCall c"
      using Cons.IH [of dp1] by blast
    ultimately show ?thesis
      using c1 by auto
  next
    case (Some e)
    then have "snd (addIPBlocks x es m (b # bs) dp) = dp1"
      using a by (simp add: dp1_def [symmetric])
    then show ?thesis
      using c1 by auto
  qed
qed


lemma createMembers_calls:
  "\<exists>cs. calls (snd (createMembers x es sets dp)) = calls dp @ cs \<and>
        (\<forall>c\<in>set cs. isSetCreationCall c)"
proof (induction sets arbitrary: dp)
  case Nil
  then show ?case by simp
next
  case (Cons s sets)
  consider (cidr) "Type (Metadata s) = CIDRBlocks"
    | (nested) "Type (Metadata s) \<noteq> CIDRBlocks" "Type (Metadata s) = NestedLabelOfPod \<and> length (Members s) > 0"
    | (other) "Type (Metadata s) \<noteq> CIDRBlocks" "\<not> (Type (Metadata s) = NestedLabelOfPod \<and> length (Members s) > 0)"
    by blast
  then show ?case
  proof cases
    case cidr
    obtain r dp1 where a: "addIPBlocks x es (Metadata s) (Members s) dp = (r, dp1)"
      by force
    obtain cs1 where c1: "calls dp1 = calls dp @ cs1" "\<forall>c\<in>set cs1. isSetCreationCall c"
      using addIPBlocks_calls [of x es "Metadata s" "Members s" dp] a by auto
    show ?thesis
    proof (cases r)
      case None
      then have "createMembers x es (s # sets) dp = createMembers x es sets dp1"
        using a cidr by simp
      moreover obtain cs where "calls (snd (createMembers x es sets dp1)) = calls dp1 @ cs"
        "\<forall>c\<in>set cs. isSetCreationCall c"
        using Cons.IH [of dp1] by blast
      ultimately show ?thesis
        using c1 by auto
    next
      case (Some e)
      then have "snd (createMembers x es (s # sets) dp) = dp1"
        using a cidr by simp
      then show ?thesis
        using c1 by auto
    qed
  next
    case nested
    let ?ms = "GetMembersOfTranslatedSets x (Members s)"
    obtain err i' where a: "ism_AddToLists x (ipsetMgr dp) [Metadata s] ?ms = (err, i')"
      by force
    define dp1 where "dp1 = logCall (Call_AddToLists [Metadata s] ?ms) (dp\<lparr>ipsetMgr := i'\<rparr>)"
    have c1: "calls dp1 = calls dp @ [Call_AddToLists [Metadata s] ?ms]"
      by (simp add: dp1_def logCall_def)
    show ?thesis
    proof (cases err)
      case None
      then have "createMembers x es (s # sets) dp = createMembers x es sets dp1"
        using a nested by (simp add: dp1_def [symmetric])
      moreover obtain cs where "calls (snd (createMembers x es sets dp1)) = calls dp1 @ cs"
        "\<forall>c\<in>set cs. isSetCreationCall c"
        using Cons.IH [of dp1] by blast
      ultimately show ?thesis
        using c1 by auto
    next
      case (Some e)
      then have "snd (createMembers x es (s # sets) dp) = dp1"
        using a nested by (simp add: dp1_def [symmetric])
      then show ?thesis
        using c1 by auto
    qed
  next
    case other
    then have "createMembers x es (s # sets) dp = createMembers x es sets dp"
      by auto
    then show ?thesis
      using Cons.IH [of dp] by simp
  qed
qed

lemma createIPSetsAndReferences_calls:
  "\<exists>cs. calls (snd (createIPSetsAndReferences x sets n t dp)) = calls dp @ cs \<and>
        (\<forall>c\<in>set cs. isSetCreationCall c)"
proof -
  define es where "es = (if t = NetPolType then ''AddNetPolReference'' else ''AddSelectorReference'')"
  obtain r dp1 where a: "createReferences x es sets n t dp = (r, dp1)"
    by force
  obtain cs1 where c1: "calls dp1 = calls dp @ cs1" "\<forall>c\<in>set cs1. isSetCreationCall c"
    using createReferences_calls [of x es sets n t dp] a by auto
  show ?thesis
  proof (cases r)
    case None
    then have "createIPSetsAndReferences x sets n t dp = createMembers x es sets dp1"
      using a by (simp add: createIPSetsAndReferences_def es_def [symmetric])
    moreover obtain cs where "calls (snd (createMembers x es sets dp1)) = calls dp1 @ cs"
      "\<forall>c\<in>set cs. isSetCreationCall c"
      using createMembers_calls [of x es sets dp1] by blast
    ultimately show ?thesis
      using c1 by auto
  next
    case (Some e)
    then have "snd (createIPSetsAndReferences x sets n t dp) = dp1"
      using a by (simp add: createIPSetsAndReferences_def es_def [symmetric])
    then show ?thesis
      using c1 by auto
  qed
qed

lemma updatePodsLoop_calls:
  "\<exists>cs. calls (snd (updatePodsLoop fuel x dp)) = calls dp @ cs \<and>
        (\<forall>c\<in>set cs. isPodUpdateCall c)"
proof (induction fuel arbitrary: dp)
  case 0
  then show ?case by simp
next
  case (Suc n)
  show ?case
  proof (cases "updatePodCache dp")
    case Nil
    then show ?thesis by (simp add: isEmpty_def)
  next
    case (Cons pod q)
    define dp1 where "dp1 = dp\<lparr>updatePodCache := q\<rparr>"
    obtain err pod' v where u: "updatePod x (platformOf dp1) pod = ((err, pod'), v)"
      by (metis prod.exhaust)
    define dp2 where "dp2 = logCall (Call_updatePod (upPodKey pod)) (setPlatform v dp1)"
    have c2: "calls dp2 = calls dp @ [Call_updatePod (upPodKey pod)]"
      by (simp add: dp2_def dp1_def logCall_def setPlatform_def split: prod.splits)
    show ?thesis
    proof (cases err)
      case None
      then have "updatePodsLoop (Suc n) x dp = updatePodsLoop n x dp2"
        using Cons u by (simp add: isEmpty_def dequeue_def dp1_def [symmetric] dp2_def [symmetric])
      moreover obtain cs where "calls (snd (updatePodsLoop n x dp2)) = calls dp2 @ cs"
        "\<forall>c\<in>set cs. isPodUpdateCall c"
        using Suc.IH [of dp2] by blast
      ultimately show ?thesis
        using c2 by auto
    next
      case (Some e)
      define dp3 where "dp3 = (logCall (Call_SendErrorLogAndMetric
                                      ''failed to update pod while applying the dataplane'') dp2)
                            \<lparr>updatePodCache := requeue (updatePodCache dp2) pod'\<rparr>"
      have c3: "calls dp3 = calls dp @ [Call_updatePod (upPodKey pod),
                  Call_SendErrorLogAndMetric ''failed to update pod while applying the dataplane'']"
        by (simp add: dp3_def c2 logCall_def)
      have "updatePodsLoop (Suc n) x dp = updatePodsLoop n x dp3"
        using Some Cons u
        by (simp add: isEmpty_def dequeue_def dp1_def [symmetric] dp2_def [symmetric] dp3_def [symmetric])
      moreover obtain cs where "calls (snd (updatePodsLoop n x dp3)) = calls dp3 @ cs"
        "\<forall>c\<in>set cs. isPodUpdateCall c"
        using Suc.IH [of dp3] by blast
      ultimately show ?thesis
        using c3 by auto
    qed
  qed
qed

lemma updatePodsLoop_numBatches:
  "applyInfo_numBatches (snd (updatePodsLoop fuel x dp)) = applyInfo_numBatches dp"
proof (induction fuel arbitrary: dp)
  case 0
  then show ?case by simp
next
  case (Suc n)
  show ?case
    by (cases "updatePodCache dp")
       (simp_all add: isEmpty_def dequeue_def Let_def Suc.IH logCall_def setPlatform_def
          split: prod.splits option.splits)
qed


lemma updatePods_calls:
  "\<exists>cs. calls (snd (updatePods fuel x dp)) = calls dp @ cs \<and> (\<forall>c\<in>set cs. isPodUpdateCall c)"
proof -
  obtain rerr v where r: "refreshPodEndpoints x (platformOf dp) = (rerr, v)"
    by (rule prod.exhaust)
  define dp3 where "dp3 = logCall Call_refreshPodEndpoints (setPlatform v dp)"
  have c3: "calls dp3 = calls dp @ [Call_refreshPodEndpoints]"
    by (simp add: dp3_def logCall_def setPlatform_def split: prod.splits)
  obtain cs where l: "calls (snd (updatePodsLoop fuel x dp3)) = calls dp3 @ cs"
    "\<forall>c\<in>set cs. isPodUpdateCall c"
    using updatePodsLoop_calls [of fuel x dp3] by blast
  have "snd (updatePods fuel x dp) = dp \<or>
        snd (updatePods fuel x dp) =
          logCall (Call_SendErrorLogAndMetric
            ''[DataPlane] failed to refresh endpoints while updating pods'') dp3 \<or>
        snd (updatePods fuel x dp) = snd (updatePodsLoop fuel x dp3)"
    using r by (cases rerr) (simp_all add: updatePods_def Let_def dp3_def [symmetric])
  then show ?thesis
    using c3 l by (auto simp: logCall_def)
qed

lemma updatePods_numBatches:
  "applyInfo_numBatches (snd (updatePods fuel x dp)) = applyInfo_numBatches dp"
  by (simp add: updatePods_def Let_def updatePodsLoop_numBatches logCall_def setPlatform_def
      split: prod.splits option.splits)

lemma applyDataPlaneNow_calls:
  "\<exists>cs. calls (snd (applyDataPlaneNow fuel x c dp)) = calls dp @ Call_ApplyIPSets # cs \<and>
        (\<forall>c\<in>set cs. isPodUpdateCall c)"
proof -
  obtain err i' where a: "ism_ApplyIPSets x (ipsetMgr dp) = (err, i')"
    by force
  define dp1 where "dp1 = logCall Call_ApplyIPSets (dp\<lparr>ipsetMgr := i'\<rparr>)"
  define dp2 where "dp2 = (if applyInBackground dp1 then dp1\<lparr>applyInfo_numBatches := 0\<rparr> else dp1)"
  have c2: "calls dp1 = calls dp @ [Call_ApplyIPSets]" "calls dp2 = calls dp @ [Call_ApplyIPSets]"
    by (simp_all add: dp2_def dp1_def logCall_def)
  obtain cs where l: "calls (snd (updatePods fuel x dp2)) = calls dp2 @ cs"
    "\<forall>c\<in>set cs. isPodUpdateCall c"
    using updatePods_calls [of fuel x dp2] by blast
  have "snd (applyDataPlaneNow fuel x c dp) = dp1 \<or>
        snd (applyDataPlaneNow fuel x c dp) = snd (updatePods fuel x dp2)"
    using a unfolding applyDataPlaneNow_def Let_def dp2_def dp1_def
    by (cases err) simp_all
  then show ?thesis
    using c2 l by auto
qed

lemma AddPolicy_selector_failure:
  assumes "createIPSetsAndReferences x (AllPodSelectorIPSets x pol) (PolicyKey pol) SelectorType dp = (Some e, dp1)"
  shows "AddPolicy fuel x pol dp =
           (Return (Some (Wrapf ''[DataPlane] error while adding Selector IPSet references'' e)), dp1)"
  using assms by (simp add: AddPolicy_def)

lemma AddPolicy_rule_failure:
  assumes "createIPSetsAndReferences x (AllPodSelectorIPSets x pol) (PolicyKey pol) SelectorType dp = (None, dp1)"
    and "createIPSetsAndReferences x (RuleIPSets pol) (PolicyKey pol) NetPolType dp1 = (Some e, dp2)"
  shows "AddPolicy fuel x pol dp =
           (Return (Some (Wrapf ''[DataPlane] error while adding Rule IPSet references'' e)), dp2)"
  using assms by (simp add: AddPolicy_def)

lemma AddPolicy_endpoints_failure:
  assumes "createIPSetsAndReferences x (AllPodSelectorIPSets x pol) (PolicyKey pol) SelectorType dp = (None, dp1)"
    and "createIPSetsAndReferences x (RuleIPSets pol) (PolicyKey pol) NetPolType dp1 = (None, dp2)"
    and "applyDataPlaneNow fuel x contextAddNetPol dp2 = (Return None, dp3)"
    and "getEndpointsToApplyPolicy x (platformOf dp3) pol = ((Some e, eps), v)"
  shows "AddPolicy fuel x pol dp =
           (Return (Some (Wrapf
              ''[DataPlane] error while getting endpoints to apply policy after applying dataplane'' e)),
            logCall (Call_getEndpointsToApplyPolicy (PolicyKey pol)) (setPlatform v dp3))"
  using assms by (simp add: AddPolicy_def)

lemma AddPolicy_install_failure:
  assumes "createIPSetsAndReferences x (AllPodSelectorIPSets x pol) (PolicyKey pol) SelectorType dp = (None, dp1)"
    and "createIPSetsAndReferences x (RuleIPSets pol) (PolicyKey pol) NetPolType dp1 = (None, dp2)"
    and "applyDataPlaneNow fuel x contextAddNetPol dp2 = (Return None, dp3)"
    and "getEndpointsToApplyPolicy x (platformOf dp3) pol = ((None, eps), v)"
    and "pm_AddPolicy x (policyMgr (logCall (Call_getEndpointsToApplyPolicy (PolicyKey pol)) (setPlatform v dp3)))
           pol eps = (Some e, p')"
  shows "AddPolicy fuel x pol dp =
           (Return (Some (Wrapf ''[DataPlane] error while adding policy'' e)),
            logCall (Call_PMAddPolicy (PolicyKey pol))
              ((logCall (Call_getEndpointsToApplyPolicy (PolicyKey pol)) (setPlatform v dp3))\<lparr>policyMgr := p'\<rparr>))"
  using assms by (simp add: AddPolicy_def Let_def)

lemma AddPolicy_no_rollback_upto_apply:
  assumes "createIPSetsAndReferences x (AllPodSelectorIPSets x pol) (PolicyKey pol) SelectorType dp = (r1, dp1)"
    and "createIPSetsAndReferences x (RuleIPSets pol) (PolicyKey pol) NetPolType dp1 = (r2, dp2)"
    and "applyDataPlaneNow fuel x contextAddNetPol dp2 = (r3, dp3)"
  shows "\<exists>cs. calls dp3 = calls dp @ cs \<and> (\<forall>c\<in>set cs. \<not> isRollbackCall c)"
proof -
  obtain cs1 where c1: "calls dp1 = calls dp @ cs1" "\<forall>c\<in>set cs1. isSetCreationCall c"
    using createIPSetsAndReferences_calls [of x "AllPodSelectorIPSets x pol" "PolicyKey pol" SelectorType dp]
      assms(1) by auto
  obtain cs2 where c2: "calls dp2 = calls dp1 @ cs2" "\<forall>c\<in>set cs2. isSetCreationCall c"
    using createIPSetsAndReferences_calls [of x "RuleIPSets pol" "PolicyKey pol" NetPolType dp1]
      assms(2) by auto
  obtain cs3 where c3: "calls dp3 = calls dp2 @ Call_ApplyIPSets # cs3" "\<forall>c\<in>set cs3. isPodUpdateCall c"
    using applyDataPlaneNow_calls [of fuel x contextAddNetPol dp2] assms(3) by auto
  have "calls dp3 = calls dp @ (cs1 @ cs2 @ Call_ApplyIPSets # cs3)"
    using c1 c2 c3 by simp
  moreover have "\<forall>c\<in>set (cs1 @ cs2 @ Call_ApplyIPSets # cs3). \<not> isRollbackCall c"
    using c1 c2 c3 isSetCreationCall_not_rollback isPodUpdateCall_not_rollback by auto
  ultimately show ?thesis by blast
qed


text \<open>C8.  In \<open>AddPolicy\<close>, a failure while creating the selector-set references, or
  while creating the rule-set references, is returned at once: the state is the one the
  failed creation left, and every call logged so far is a set-creation call (no
  \<open>ApplyIPSets\<close>, no endpoint resolution, no rule install).  A failure of the endpoint
  resolution or of the rule install is returned wrapped, and no call logged by this
  \<open>AddPolicy\<close> deletes a reference or removes a member.\<close>

theorem AddPolicy_failures:
  "(createIPSetsAndReferences x (AllPodSelectorIPSets x pol) (PolicyKey pol) SelectorType dp = (Some e, dp1) \<longrightarrow>
      AddPolicy fuel x pol dp =
        (Return (Some (Wrapf ''[DataPlane] error while adding Selector IPSet references'' e)), dp1) \<and>
      (\<exists>cs. calls dp1 = calls dp @ cs \<and> (\<forall>c\<in>set cs. isSetCreationCall c))) \<and>
   (createIPSetsAndReferences x (AllPodSelectorIPSets x pol) (PolicyKey pol) SelectorType dp = (None, dp1) \<and>
    createIPSetsAndReferences x (RuleIPSets pol) (PolicyKey pol) NetPolType dp1 = (Some e, dp2) \<longrightarrow>
      AddPolicy fuel x pol dp =
        (Return (Some (Wrapf ''[DataPlane] error while adding Rule IPSet references'' e)), dp2) \<and>
      (\<exists>cs. calls dp2 = calls dp @ cs \<and> (\<forall>c\<in>set cs. isSetCreationCall c))) \<and>
   (createIPSetsAndReferences x (AllPodSelectorIPSets x pol) (PolicyKey pol) SelectorType dp = (None, dp1) \<and>
    createIPSetsAndReferences x (RuleIPSets pol) (PolicyKey pol) NetPolType dp1 = (None, dp2) \<and>
    applyDataPlaneNow fuel x contextAddNetPol dp2 = (Return None, dp3) \<and>
    getEndpointsToApplyPolicy x (platformOf dp3) pol = ((Some e, eps), v) \<longrightarrow>
      AddPolicy fuel x pol dp =
        (Return (Some (Wrapf
           ''[DataPlane] error while getting endpoints to apply policy after applying dataplane'' e)),
         logCall (Call_getEndpointsToApplyPolicy (PolicyKey pol)) (setPlatform v dp3)) \<and>
      (\<exists>cs. calls (snd (AddPolicy fuel x pol dp)) = calls dp @ cs \<and> (\<forall>c\<in>set cs. \<not> isRollbackCall c))) \<and>
   (createIPSetsAndReferences x (AllPodSelectorIPSets x pol) (PolicyKey pol) SelectorType dp = (None, dp1) \<and>
    createIPSetsAndReferences x (RuleIPSets pol) (PolicyKey pol) NetPolType dp1 = (None, dp2) \<and>
    applyDataPlaneNow fuel x contextAddNetPol dp2 = (Return None, dp3) \<and>
    getEndpointsToApplyPolicy x (platformOf dp3) pol = ((None, eps), v) \<and>
    pm_AddPolicy x (policyMgr (setPlatform v dp3)) pol eps = (Some e, p') \<longrightarrow>
      AddPolicy fuel x pol dp =
        (Return (Some (Wrapf ''[DataPlane] error while adding policy'' e)),
         logCall (Call_PMAddPolicy (PolicyKey pol))
           ((logCall (Call_getEndpointsToApplyPolicy (PolicyKey pol)) (setPlatform v dp3))\<lparr>policyMgr := p'\<rparr>)) \<and>
      (\<exists>cs. calls (snd (AddPolicy fuel x pol dp)) = calls dp @ cs \<and> (\<forall>c\<in>set cs. \<not> isRollbackCall c)))"
proof (intro conjI impI)
  assume a: "createIPSetsAndReferences x (AllPodSelectorIPSets x pol) (PolicyKey pol) SelectorType dp = (Some e, dp1)"
  show "AddPolicy fuel x pol dp =
        (Return (Some (Wrapf ''[DataPlane] error while adding Selector IPSet references'' e)), dp1)"
    by (rule AddPolicy_selector_failure [OF a])
  show "\<exists>cs. calls dp1 = calls dp @ cs \<and> (\<forall>c\<in>set cs. isSetCreationCall c)"
    using createIPSetsAndReferences_calls [of x "AllPodSelectorIPSets x pol" "PolicyKey pol" SelectorType dp] a
    by simp
next
  assume a: "createIPSetsAndReferences x (AllPodSelectorIPSets x pol) (PolicyKey pol) SelectorType dp = (None, dp1) \<and>
    createIPSetsAndReferences x (RuleIPSets pol) (PolicyKey pol) NetPolType dp1 = (Some e, dp2)"
  show "AddPolicy fuel x pol dp =
        (Return (Some (Wrapf ''[DataPlane] error while adding Rule IPSet references'' e)), dp2)"
    using a by (simp add: AddPolicy_rule_failure)
  obtain cs1 where c1: "calls dp1 = calls dp @ cs1" "\<forall>c\<in>set cs1. isSetCreationCall c"
    using createIPSetsAndReferences_calls [of x "AllPodSelectorIPSets x pol" "PolicyKey pol" SelectorType dp] a
    by auto
  obtain cs2 where c2: "calls dp2 = calls dp1 @ cs2" "\<forall>c\<in>set cs2. isSetCreationCall c"
    using createIPSetsAndReferences_calls [of x "RuleIPSets pol" "PolicyKey pol" NetPolType dp1] a
    by auto
  have "calls dp2 = calls dp @ (cs1 @ cs2)" "\<forall>c\<in>set (cs1 @ cs2). isSetCreationCall c"
    using c1 c2 by auto
  then show "\<exists>cs. calls dp2 = calls dp @ cs \<and> (\<forall>c\<in>set cs. isSetCreationCall c)"
    by blast
next
  assume a: "createIPSetsAndReferences x (AllPodSelectorIPSets x pol) (PolicyKey pol) SelectorType dp = (None, dp1) \<and>
    createIPSetsAndReferences x (RuleIPSets pol) (PolicyKey pol) NetPolType dp1 = (None, dp2) \<and>
    applyDataPlaneNow fuel x contextAddNetPol dp2 = (Return None, dp3) \<and>
    getEndpointsToApplyPolicy x (platformOf dp3) pol = ((Some e, eps), v)"
  show r: "AddPolicy fuel x pol dp =
        (Return (Some (Wrapf
           ''[DataPlane] error while getting endpoints to apply policy after applying dataplane'' e)),
         logCall (Call_getEndpointsToApplyPolicy (PolicyKey pol)) (setPlatform v dp3))"
    using a by (simp add: AddPolicy_endpoints_failure)
  obtain cs where "calls dp3 = calls dp @ cs" "\<forall>c\<in>set cs. \<not> isRollbackCall c"
    using AddPolicy_no_rollback_upto_apply [of x pol dp None dp1 None dp2 fuel "Return None" dp3] a
    by auto
  then have "calls (snd (AddPolicy fuel x pol dp)) = calls dp @ (cs @ [Call_getEndpointsToApplyPolicy (PolicyKey pol)])"
    "\<forall>c\<in>set (cs @ [Call_getEndpointsToApplyPolicy (PolicyKey pol)]). \<not> isRollbackCall c"
    by (simp_all add: r logCall_def setPlatform_def split: prod.splits)
  then show "\<exists>cs. calls (snd (AddPolicy fuel x pol dp)) = calls dp @ cs \<and> (\<forall>c\<in>set cs. \<not> isRollbackCall c)"
    by blast
next
  assume a: "createIPSetsAndReferences x (AllPodSelectorIPSets x pol) (PolicyKey pol) SelectorType dp = (None, dp1) \<and>
    createIPSetsAndReferences x (RuleIPSets pol) (PolicyKey pol) NetPolType dp1 = (None, dp2) \<and>
    applyDataPlaneNow fuel x contextAddNetPol dp2 = (Return None, dp3) \<and>
    getEndpointsToApplyPolicy x (platformOf dp3) pol = ((None, eps), v) \<and>
    pm_AddPolicy x (policyMgr (setPlatform v dp3)) pol eps = (Some e, p')"
  then have p: "pm_AddPolicy x (policyMgr (logCall (Call_getEndpointsToApplyPolicy (PolicyKey pol)) (setPlatform v dp3)))
           pol eps = (Some e, p')"
    by (simp add: logCall_def)
  show r: "AddPolicy fuel x pol dp =
        (Return (Some (Wrapf ''[DataPlane] error while adding policy'' e)),
         logCall (Call_PMAddPolicy (PolicyKey pol))
           ((logCall (Call_getEndpointsToApplyPolicy (PolicyKey pol)) (setPlatform v dp3))\<lparr>policyMgr := p'\<rparr>))"
    using a AddPolicy_install_failure [OF _ _ _ _ p] by blast
  obtain cs where "calls dp3 = calls dp @ cs" "\<forall>c\<in>set cs. \<not> isRollbackCall c"
    using AddPolicy_no_rollback_upto_apply [of x pol dp None dp1 None dp2 fuel "Return None" dp3] a
    by auto
  then have "calls (snd (AddPolicy fuel x pol dp)) =
      calls dp @ (cs @ [Call_getEndpointsToApplyPolicy (PolicyKey pol), Call_PMAddPolicy (PolicyKey pol)])"
    "\<forall>c\<in>set (cs @ [Call_getEndpointsToApplyPolicy (PolicyKey pol), Call_PMAddPolicy (PolicyKey pol)]).
       \<not> isRollbackCall c"
    by (simp_all add: r logCall_def setPlatform_def split: prod.splits)
  then show "\<exists>cs. calls (snd (AddPolicy fuel x pol dp)) = calls dp @ cs \<and> (\<forall>c\<in>set cs. \<not> isRollbackCall c)"
    by blast
qed


lemmas ev8 = AddPolicy_def createIPSetsAndReferences_def applyDataPlaneNow_def updatePods_def
  incrementBatchAndReconcileDirtyNetPolsIfNeeded_def isEmpty_def logCall_def platformOf_def
  setPlatform_def contextAddNetPol_def
  failSelectorExt_def failRuleExt_def failEndpointsExt_def failInstallExt_def selExt_def okExt_def
  polA_def selSet_def ruleSet_def dp0_def

theorem AddPolicy_failures_witness:
  "fst (createIPSetsAndReferences failSelectorExt [selSet] ''ns/p'' SelectorType dp0) =
     Some (NPMError ''AddSelectorReference'' ''[DataPlane] failed to add reference with err'' (External ''no selector'')) \<and>
   fst (AddPolicy 0 failSelectorExt polA dp0) =
     Return (Some (Wrapf ''[DataPlane] error while adding Selector IPSet references''
       (NPMError ''AddSelectorReference'' ''[DataPlane] failed to add reference with err'' (External ''no selector'')))) \<and>
   calls (snd (AddPolicy 0 failSelectorExt polA dp0)) =
     [Call_CreateIPSets [Metadata selSet], Call_AddReference (Metadata selSet) ''ns/p'' SelectorType] \<and>
   fst (AddPolicy 0 failRuleExt polA dp0) =
     Return (Some (Wrapf ''[DataPlane] error while adding Rule IPSet references''
       (NPMError ''AddNetPolReference'' ''[DataPlane] failed to add reference with err'' (External ''no rule set'')))) \<and>
   calls (snd (AddPolicy 0 failRuleExt polA dp0)) =
     [Call_CreateIPSets [Metadata selSet], Call_AddReference (Metadata selSet) ''ns/p'' SelectorType,
      Call_CreateIPSets [Metadata ruleSet], Call_AddReference (Metadata ruleSet) ''ns/p'' NetPolType] \<and>
   fst (AddPolicy 0 failEndpointsExt polA dp0) =
     Return (Some (Wrapf
       ''[DataPlane] error while getting endpoints to apply policy after applying dataplane'' (External ''hns''))) \<and>
   calls (snd (AddPolicy 0 failEndpointsExt polA dp0)) =
     [Call_CreateIPSets [Metadata selSet], Call_AddReference (Metadata selSet) ''ns/p'' SelectorType,
      Call_CreateIPSets [Metadata ruleSet], Call_AddReference (Metadata ruleSet) ''ns/p'' NetPolType,
      Call_AddToSets [Metadata ruleSet] ''10.0.0.0/8'' [],
      Call_ApplyIPSets, Call_getEndpointsToApplyPolicy ''ns/p''] \<and>
   fst (AddPolicy 0 failInstallExt polA dp0) =
     Return (Some (Wrapf ''[DataPlane] error while adding policy'' (External ''acl''))) \<and>
   calls (snd (AddPolicy 0 failInstallExt polA dp0)) =
     [Call_CreateIPSets [Metadata selSet], Call_AddReference (Metadata selSet) ''ns/p'' SelectorType,
      Call_CreateIPSets [Metadata ruleSet], Call_AddReference (Metadata ruleSet) ''ns/p'' NetPolType,
      Call_AddToSets [Metadata ruleSet] ''10.0.0.0/8'' [],
      Call_ApplyIPSets, Call_getEndpointsToApplyPolicy ''ns/p'', Call_PMAddPolicy ''ns/p'']"
proof -
  let ?s1 = "\<lambda>x. snd (createIPSetsAndReferences x [selSet] ''ns/p'' SelectorType dp0)"
  let ?s2 = "\<lambda>x. snd (createIPSetsAndReferences x [ruleSet] ''ns/p'' NetPolType (?s1 x))"
  let ?s3 = "\<lambda>x. snd (applyDataPlaneNow 0 x contextAddNetPol (?s2 x))"
  note w1 = AddPolicy_failures [where x = failSelectorExt and pol = polA and dp = dp0 and fuel = 0
      and e = "NPMError ''AddSelectorReference'' ''[DataPlane] failed to add reference with err'' (External ''no selector'')"
      and ?dp1.0 = "?s1 failSelectorExt" and ?dp2.0 = dp0 and ?dp3.0 = dp0 and eps = "[]"
      and v = "platformOf dp0" and p' = 0]
  note w2 = AddPolicy_failures [where x = failRuleExt and pol = polA and dp = dp0 and fuel = 0
      and e = "NPMError ''AddNetPolReference'' ''[DataPlane] failed to add reference with err'' (External ''no rule set'')"
      and ?dp1.0 = "?s1 failRuleExt" and ?dp2.0 = "?s2 failRuleExt" and ?dp3.0 = dp0 and eps = "[]"
      and v = "platformOf dp0" and p' = 0]
  note w3 = AddPolicy_failures [where x = failEndpointsExt and pol = polA and dp = dp0 and fuel = 0
      and e = "External ''hns''"
      and ?dp1.0 = "?s1 failEndpointsExt" and ?dp2.0 = "?s2 failEndpointsExt"
      and ?dp3.0 = "?s3 failEndpointsExt" and eps = "[]"
      and v = "platformOf (?s3 failEndpointsExt)" and p' = 0]
  note w4 = AddPolicy_failures [where x = failInstallExt and pol = polA and dp = dp0 and fuel = 0
      and e = "External ''acl''"
      and ?dp1.0 = "?s1 failInstallExt" and ?dp2.0 = "?s2 failInstallExt"
      and ?dp3.0 = "?s3 failInstallExt" and eps = "[]"
      and v = "platformOf (?s3 failInstallExt)" and p' = 0]
  show ?thesis
    using w1 w2 w3 w4 by (simp add: ev8)
qed

subsection \<open>The temporary-reference protocol\<close>

lemma deleteReference_calls:
  "calls (deleteReference x s n t dp) = calls dp @ [Call_DeleteReference s n t]"
  by (simp add: deleteReference_def logCall_def split: prod.splits)















lemma fold_deleteReference_calls:
  "calls (fold (\<lambda>s. deleteReference x s n t) ss dp) = calls dp @ map (\<lambda>s. Call_DeleteReference s n t) ss"
  by (induction ss arbitrary: dp) (simp_all add: deleteReference_calls)

lemma fold_releaseEntry_calls:
  "calls (fold (releaseEntry x) es dp) =
     calls dp @ concat (map (\<lambda>(k, vs). map (\<lambda>v. Call_DeleteReference v (''TMP'' @ k) NetPolType) vs) es)"
  by (induction es arbitrary: dp)
     (simp_all add: releaseEntry_def fold_deleteReference_calls split: prod.splits)

lemma deleteReference_numBatches:
  "netPolInfo_numBatches (deleteReference x s n t dp) = netPolInfo_numBatches dp"
  by (simp add: deleteReference_def logCall_def split: prod.splits)

lemma fold_deleteReference_numBatches:
  "netPolInfo_numBatches (fold (\<lambda>s. deleteReference x s n t) ss dp) = netPolInfo_numBatches dp"
  by (induction ss arbitrary: dp) (simp_all add: deleteReference_numBatches)

lemma fold_releaseEntry_numBatches:
  "netPolInfo_numBatches (fold (releaseEntry x) es dp) = netPolInfo_numBatches dp"
  by (induction es arbitrary: dp)
     (simp_all add: releaseEntry_def fold_deleteReference_numBatches split: prod.splits)

lemma reconcileDirtyNetPolsNow_success:
  assumes "pm_ReconcileDirtyNetPols x (policyMgr dp) = (None, p')"
  shows "fst (reconcileDirtyNetPolsNow x c dp) = None"
    and "calls (snd (reconcileDirtyNetPolsNow x c dp)) =
           calls dp @ Call_ReconcileDirtyNetPols #
             concat (map (\<lambda>(k, vs). map (\<lambda>v. Call_DeleteReference v (''TMP'' @ k) NetPolType) vs)
                       (toDeleteNetPolReferences dp))"
    and "toDeleteNetPolReferences (snd (reconcileDirtyNetPolsNow x c dp)) = []"
    and "netPolInfo_numBatches (snd (reconcileDirtyNetPolsNow x c dp)) = 0"
proof -
  define dp2 where "dp2 = (logCall Call_ReconcileDirtyNetPols (dp\<lparr>policyMgr := p'\<rparr>))\<lparr>netPolInfo_numBatches := 0\<rparr>"
  have r: "reconcileDirtyNetPolsNow x c dp =
             (None, (fold (releaseEntry x) (toDeleteNetPolReferences dp) dp2)\<lparr>toDeleteNetPolReferences := []\<rparr>)"
    using assms by (simp add: reconcileDirtyNetPolsNow_def Let_def dp2_def logCall_def)
  show "fst (reconcileDirtyNetPolsNow x c dp) = None"
    by (simp add: r)
  show "calls (snd (reconcileDirtyNetPolsNow x c dp)) =
           calls dp @ Call_ReconcileDirtyNetPols #
             concat (map (\<lambda>(k, vs). map (\<lambda>v. Call_DeleteReference v (''TMP'' @ k) NetPolType) vs)
                       (toDeleteNetPolReferences dp))"
    by (simp add: r fold_releaseEntry_calls dp2_def logCall_def)
  show "toDeleteNetPolReferences (snd (reconcileDirtyNetPolsNow x c dp)) = []"
    by (simp add: r)
  show "netPolInfo_numBatches (snd (reconcileDirtyNetPolsNow x c dp)) = 0"
    by (simp add: r fold_releaseEntry_numBatches dp2_def)
qed

text \<open>C2.  The claim: the flush releases each recorded temporary reference with
  \<open>DeleteReference(s, "TMP" + p, NetPolType)\<close>.  Removing policy \<open>ns/p\<close> with rule
  set \<open>rule1\<close> records \<open>rule1 \<rightarrow> [ns/p]\<close>, as claimed; the flush then calls
  \<open>DeleteReference("ns/p", "TMPrule1", NetPolType)\<close>: it reads the table's key as the
  policy key and its values as set names, so the temporary reference \<open>TMPns/p\<close> of
  \<open>rule1\<close> is not released: with the reference counting of the spec, \<open>rule1\<close>
  still holds it after the flush, while the table is empty.\<close>

theorem reconcile_releases_swapped_names:
  "toDeleteNetPolReferences (snd (deleteIPSetsAndReferences batchedExt [ruleSet] ''ns/p'' NetPolType dpBatched)) =
     [(''rule1'', [''ns/p''])] \<and>
   fst (reconcileDirtyNetPolsNow batchedExt contextDelNetPol
          (snd (deleteIPSetsAndReferences batchedExt [ruleSet] ''ns/p'' NetPolType dpBatched))) = None \<and>
   calls (snd (reconcileDirtyNetPolsNow batchedExt contextDelNetPol
          (snd (deleteIPSetsAndReferences batchedExt [ruleSet] ''ns/p'' NetPolType dpBatched)))) =
     [Call_AddReference (Metadata ruleSet) ''TMPns/p'' NetPolType,
      Call_DeleteReference ''rule1'' ''ns/p'' NetPolType,
      Call_RemoveFromSets [Metadata ruleSet] ''10.0.0.0/8'' [],
      Call_ReconcileDirtyNetPols,
      Call_DeleteReference ''ns/p'' ''TMPrule1'' NetPolType] \<and>
   toDeleteNetPolReferences (snd (reconcileDirtyNetPolsNow (withReferenceCounting refOkExt) contextDelNetPol
          (snd (deleteIPSetsAndReferences (withReferenceCounting refOkExt) [ruleSet] ''ns/p'' NetPolType dpRef)))) = [] \<and>
   holdsReference
     (ipsetMgr (snd (reconcileDirtyNetPolsNow (withReferenceCounting refOkExt) contextDelNetPol
          (snd (deleteIPSetsAndReferences (withReferenceCounting refOkExt) [ruleSet] ''ns/p'' NetPolType dpRef)))))
     ''rule1'' NetPolType ''TMPns/p''"
  by (simp add: deleteIPSetsAndReferences_def deleteReference_def logCall_def Let_def
      reconcileDirtyNetPolsNow_def releaseEntry_def
      withReferenceCounting_def refAddReference_def refDeleteReference_def holdsReference_def
      batchedExt_def okExt_def dpBatched_def dp0_def ruleSet_def refOkExt_def dpRef_def)

subsection \<open>The apply-batch threshold\<close>

lemma sint_of_nat_64:
  "int k < 2 ^ 63 \<Longrightarrow> sint (of_nat k :: 64 word) = int k"
proof -
  assume k: "int k < 2 ^ 63"
  have "sint (of_nat k :: 64 word) = signed_take_bit 63 (int k)"
    by (simp add: signed_of_nat)
  also have "\<dots> = int k"
    using k by (intro signed_take_bit_int_eq_self) auto
  finally show ?thesis .
qed

lemma sint_max_64: "sint (N :: 64 word) < 2 ^ 63"
  using sint_lt [of N] by simp

lemma sint_succ_of_nat_64:
  assumes "int (Suc k) < 2 ^ 63"
  shows "sint (of_nat k + 1 :: 64 word) = int k + 1"
proof -
  have "(of_nat k + 1 :: 64 word) = of_nat (Suc k)"
    by simp
  then have "sint (of_nat k + 1 :: 64 word) = sint (of_nat (Suc k) :: 64 word)"
    by (rule arg_cong)
  also have "\<dots> = int (Suc k)"
    using assms by (rule sint_of_nat_64)
  finally show ?thesis by simp
qed

lemma ApplyDataPlane_below_threshold:
  assumes bg: "applyInBackground dp"
    and c: "applyInfo_numBatches dp = of_nat k"
    and k: "int k + 1 < sint (cfg_ApplyMaxBatches (config dp))"
  shows "ApplyDataPlane fuel x dp = (Return None, dp\<lparr>applyInfo_numBatches := of_nat k + 1\<rparr>)"
proof -
  have "int (Suc k) < 2 ^ 63"
    using k sint_max_64 [of "cfg_ApplyMaxBatches (config dp)"] by simp
  then have "sint (of_nat k + 1 :: 64 word) = int k + 1"
    by (rule sint_succ_of_nat_64)
  then have "\<not> cfg_ApplyMaxBatches (config dp) \<le>s (of_nat k + 1 :: 64 word)"
    unfolding word_sle_eq using k by linarith
  then show ?thesis
    using bg c by (simp add: ApplyDataPlane_def incrementBatchAndApplyIfNeeded_def Let_def)
qed

lemma applyCalls_below_threshold:
  assumes bg: "applyInBackground dp"
    and z: "applyInfo_numBatches dp = 0"
  shows "int k < sint (cfg_ApplyMaxBatches (config dp)) \<Longrightarrow>
         applyCalls k fuel x dp = dp\<lparr>applyInfo_numBatches := of_nat k\<rparr>"
proof (induction k)
  case 0
  then show ?case using z by simp
next
  case (Suc k)
  let ?d = "dp\<lparr>applyInfo_numBatches := of_nat k\<rparr>"
  have ih: "applyCalls k fuel x dp = ?d"
    using Suc by simp
  have "ApplyDataPlane fuel x ?d = (Return None, ?d\<lparr>applyInfo_numBatches := of_nat k + 1\<rparr>)"
    using Suc.prems bg by (intro ApplyDataPlane_below_threshold) simp_all
  then show ?case
    by (simp add: ih add.commute)
qed

lemma ApplyDataPlane_at_threshold:
  assumes bg: "applyInBackground dp"
    and c: "applyInfo_numBatches dp = of_nat k"
    and k: "int k + 1 = sint (cfg_ApplyMaxBatches (config dp))"
  shows "ApplyDataPlane fuel x dp =
           applyDataPlaneNow fuel x contextApplyDP (dp\<lparr>applyInfo_numBatches := cfg_ApplyMaxBatches (config dp)\<rparr>)"
proof -
  have "int (Suc k) < 2 ^ 63"
    using k sint_max_64 [of "cfg_ApplyMaxBatches (config dp)"] by simp
  then have "sint (of_nat k + 1 :: 64 word) = int k + 1"
    by (rule sint_succ_of_nat_64)
  then have "sint (of_nat k + 1 :: 64 word) = sint (cfg_ApplyMaxBatches (config dp))"
    using k by simp
  then have e: "(of_nat k + 1 :: 64 word) = cfg_ApplyMaxBatches (config dp)"
    by (rule signed_word_eqI)
  then have "cfg_ApplyMaxBatches (config dp) \<le>s (of_nat k + 1 :: 64 word)"
    by (simp add: word_sle_eq)
  then show ?thesis
    using bg c e by (simp add: ApplyDataPlane_def incrementBatchAndApplyIfNeeded_def Let_def)
qed


lemma applyDataPlaneNow_numBatches:
  "applyInfo_numBatches (snd (applyDataPlaneNow fuel x c dp)) =
     (if fst (ism_ApplyIPSets x (ipsetMgr dp)) = None \<and> applyInBackground dp then 0
      else applyInfo_numBatches dp)"
  by (simp add: applyDataPlaneNow_def Let_def updatePods_numBatches logCall_def
      split: prod.splits option.splits)

lemma count_ApplyIPSets_podUpdates:
  "\<forall>c\<in>set cs. isPodUpdateCall c \<Longrightarrow> count_list cs Call_ApplyIPSets = 0"
  by (induction cs) auto

text \<open>C4, as stated, fails when the commit of the N-th call fails: with a maximum of 1
  and a failing \<open>ApplyIPSets\<close>, the first call makes the one \<open>ApplyIPSets\<close> call and
  leaves the counter at 1.\<close>

theorem ApplyDataPlane_failed_commit_counterexample:
  "applyInBackground dpOne \<and> cfg_ApplyMaxBatches (config dpOne) = 1 \<and> applyInfo_numBatches dpOne = 0 \<and>
   calls (applyCalls (Suc 0) 0 failingFlushExt dpOne) = [Call_ApplyIPSets] \<and>
   applyInfo_numBatches (applyCalls (Suc 0) 0 failingFlushExt dpOne) = 1"
  by (simp add: ApplyDataPlane_def incrementBatchAndApplyIfNeeded_def applyDataPlaneNow_def
      logCall_def word_sle_eq failingFlushExt_def okExt_def dpOne_def dp0_def cfg0_def)

text \<open>C4, amended.  With background apply active, the apply counter at zero and a
  maximum of \<open>N = m + 1 \<ge> 1\<close> batches: after each of the first \<open>N - 1\<close> calls of
  \<open>ApplyDataPlane\<close> the state is the initial one with the counter set to the number of
  calls so far (so no \<open>ApplyIPSets\<close> was called), and each of these calls returns nil;
  the N-th call calls \<open>ApplyIPSets\<close> exactly once, and leaves the counter at 0 when
  that commit succeeds and at \<open>N\<close> when it fails.\<close>

theorem ApplyDataPlane_batch_threshold:
  assumes bg: "applyInBackground dp"
    and z: "applyInfo_numBatches dp = 0"
    and N: "sint (cfg_ApplyMaxBatches (config dp)) = int (Suc m)"
  shows "(\<forall>k\<le>m. applyCalls k fuel x dp = dp\<lparr>applyInfo_numBatches := of_nat k\<rparr>) \<and>
         (\<forall>k<m. fst (ApplyDataPlane fuel x (applyCalls k fuel x dp)) = Return None) \<and>
         count_list (calls (applyCalls (Suc m) fuel x dp)) Call_ApplyIPSets =
           count_list (calls dp) Call_ApplyIPSets + 1 \<and>
         applyInfo_numBatches (applyCalls (Suc m) fuel x dp) =
           (if fst (ism_ApplyIPSets x (ipsetMgr dp)) = None then 0
            else cfg_ApplyMaxBatches (config dp))"
proof -
  let ?d = "\<lambda>k. dp\<lparr>applyInfo_numBatches := of_nat k\<rparr>"
  have below: "applyCalls k fuel x dp = ?d k" if "k \<le> m" for k
    using that N by (intro applyCalls_below_threshold [OF bg z]) simp
  have ret: "fst (ApplyDataPlane fuel x (applyCalls k fuel x dp)) = Return None" if "k < m" for k
  proof -
    have "ApplyDataPlane fuel x (?d k) = (Return None, (?d k)\<lparr>applyInfo_numBatches := of_nat k + 1\<rparr>)"
      using that N bg by (intro ApplyDataPlane_below_threshold) simp_all
    then show ?thesis
      using below [of k] that by simp
  qed
  let ?dN = "(?d m)\<lparr>applyInfo_numBatches := cfg_ApplyMaxBatches (config dp)\<rparr>"
  have lastCall: "applyCalls (Suc m) fuel x dp = snd (applyDataPlaneNow fuel x contextApplyDP ?dN)"
  proof -
    have "ApplyDataPlane fuel x (?d m) =
            applyDataPlaneNow fuel x contextApplyDP
              ((?d m)\<lparr>applyInfo_numBatches := cfg_ApplyMaxBatches (config (?d m))\<rparr>)"
      using N bg by (intro ApplyDataPlane_at_threshold) simp_all
    then show ?thesis
      using below [of m] by simp
  qed
  obtain cs where cs: "calls (snd (applyDataPlaneNow fuel x contextApplyDP ?dN)) =
      calls ?dN @ Call_ApplyIPSets # cs" "\<forall>c\<in>set cs. isPodUpdateCall c"
    using applyDataPlaneNow_calls [of fuel x contextApplyDP ?dN] by blast
  have cnt: "count_list (calls (applyCalls (Suc m) fuel x dp)) Call_ApplyIPSets =
           count_list (calls dp) Call_ApplyIPSets + 1"
    using cs count_ApplyIPSets_podUpdates [OF cs(2)] by (subst lastCall) simp
  have num: "applyInfo_numBatches (applyCalls (Suc m) fuel x dp) =
           (if fst (ism_ApplyIPSets x (ipsetMgr dp)) = None then 0
            else cfg_ApplyMaxBatches (config dp))"
    using bg by (subst lastCall) (simp add: applyDataPlaneNow_numBatches)
  show ?thesis
    using below ret cnt num by blast
qed

theorem ApplyDataPlane_batch_threshold_witness:
  "applyInBackground dp0 \<and> applyInfo_numBatches dp0 = 0 \<and>
   sint (cfg_ApplyMaxBatches (config dp0)) = int (Suc (Suc (Suc 0))) \<and>
   applyCalls (Suc 0) 0 okExt dp0 = dp0\<lparr>applyInfo_numBatches := 1\<rparr> \<and>
   applyCalls (Suc (Suc 0)) 0 okExt dp0 = dp0\<lparr>applyInfo_numBatches := 2\<rparr> \<and>
   count_list (calls (applyCalls (Suc (Suc (Suc 0))) 0 okExt dp0)) Call_ApplyIPSets = 1 \<and>
   applyInfo_numBatches (applyCalls (Suc (Suc (Suc 0))) 0 okExt dp0) = 0"
  using ApplyDataPlane_batch_threshold [of dp0 "Suc (Suc 0)" 0 okExt]
  by (simp add: ApplyDataPlane_def incrementBatchAndApplyIfNeeded_def applyDataPlaneNow_def
      updatePods_def isEmpty_def logCall_def word_sle_eq okExt_def dp0_def cfg0_def)

subsection \<open>Failing pod updates during the drain\<close>

lemma updatePodsLoop_failure_step:
  assumes "updatePodCache dp = pod # q"
    and "updatePod x (platformOf (dp\<lparr>updatePodCache := q\<rparr>)) pod = ((Some e, pod'), v)"
  shows "updatePodsLoop (Suc n) x dp =
           updatePodsLoop n x
             ((setPlatform v dp)
                \<lparr>calls := calls dp @ [Call_updatePod (upPodKey pod),
                     Call_SendErrorLogAndMetric ''failed to update pod while applying the dataplane''],
                 updatePodCache := q @ [pod']\<rparr>)"
  using assms
  by (simp add: isEmpty_def dequeue_def requeue_def Let_def logCall_def setPlatform_def
      split: prod.splits)

lemma updatePodsLoop_outcome:
  "fst (updatePodsLoop n x dp) = Return None \<or> fst (updatePodsLoop n x dp) = OutOfFuel"
proof (induction n arbitrary: dp)
  case 0
  then show ?case by simp
next
  case (Suc n)
  show ?case
    by (cases "updatePodCache dp")
       (simp_all add: isEmpty_def dequeue_def Let_def Suc.IH split: prod.splits option.splits)
qed

lemma updatePodsLoop_permanent_failure:
  "updatePodCache dp \<noteq> [] \<Longrightarrow> fst (updatePodsLoop n podFailExt dp) = OutOfFuel"
proof (induction n arbitrary: dp)
  case 0
  then show ?case by (simp add: isEmpty_def)
next
  case (Suc n)
  then obtain pod q where q: "updatePodCache dp = pod # q"
    by (cases "updatePodCache dp") auto
  have u: "updatePod podFailExt (platformOf (dp\<lparr>updatePodCache := q\<rparr>)) pod =
             ((Some (External ''hns''), pod), platformOf (dp\<lparr>updatePodCache := q\<rparr>))"
    by (simp add: podFailExt_def okExt_def)
  show ?case
    unfolding updatePodsLoop_failure_step [OF q u]
    by (rule Suc.IH) simp
qed

text \<open>C9.  The claim: a pod whose \<open>updatePod\<close> fails is put back into the queue, the
  failure is reported as a metric, and \<open>applyDataPlaneNow\<close> still returns nil.  The
  first two hold (\<open>updatePodsLoop_failure_step\<close>), and the loop returns nil whenever
  it returns (\<open>updatePodsLoop_outcome\<close>).  But the loop runs until the queue is empty
  and the pod is put back into the very queue it drains: with one queued pod whose
  \<open>updatePod\<close> fails on every attempt, \<open>applyDataPlaneNow\<close> is still in the loop
  after any number of iterations, and never returns.\<close>

theorem applyDataPlaneNow_never_returns:
  "shouldUpdatePod podFailExt \<and> updatePodCache dpQueued = [newUpdateNPMPod pod1] \<and>
   fst (ism_ApplyIPSets podFailExt (ipsetMgr dpQueued)) = None \<and>
   fst (updatePod podFailExt (platformOf dpQueued) (newUpdateNPMPod pod1)) = (Some (External ''hns''), newUpdateNPMPod pod1) \<and>
   (\<forall>fuel. fst (applyDataPlaneNow fuel podFailExt contextApplyDP dpQueued) = OutOfFuel)"
proof -
  have "fst (applyDataPlaneNow fuel podFailExt contextApplyDP dpQueued) = OutOfFuel" for fuel
  proof -
    define d where "d = logCall Call_refreshPodEndpoints
       (setPlatform (platformOf ((logCall Call_ApplyIPSets dpQueued)\<lparr>applyInfo_numBatches := 0\<rparr>))
          ((logCall Call_ApplyIPSets dpQueued)\<lparr>applyInfo_numBatches := 0\<rparr>))"
    have q: "updatePodCache d \<noteq> []"
      by (simp add: d_def logCall_def setPlatform_def platformOf_def dpQueued_def)
    have "applyDataPlaneNow fuel podFailExt contextApplyDP dpQueued = updatePodsLoop fuel podFailExt d"
      by (simp add: applyDataPlaneNow_def updatePods_def isEmpty_def d_def
          podFailExt_def okExt_def dpQueued_def dp0_def logCall_def platformOf_def setPlatform_def)
    then show ?thesis
      using updatePodsLoop_permanent_failure [OF q, of fuel] by simp
  qed
  then show ?thesis
    by (simp add: podFailExt_def okExt_def dpQueued_def)
qed

text \<open>A pod whose update fails once and then succeeds is retried within the same flush,
  which then returns nil with the queue empty.\<close>

lemma transient_failure_is_retried:
  "fst (applyDataPlaneNow (Suc (Suc 0)) podFailOnceExt contextApplyDP dpQueued) = Return None \<and>
   updatePodCache (snd (applyDataPlaneNow (Suc (Suc 0)) podFailOnceExt contextApplyDP dpQueued)) = [] \<and>
   calls (snd (applyDataPlaneNow (Suc (Suc 0)) podFailOnceExt contextApplyDP dpQueued)) =
     [Call_ApplyIPSets, Call_refreshPodEndpoints, Call_updatePod ''ns/pod1'',
      Call_SendErrorLogAndMetric ''failed to update pod while applying the dataplane'',
      Call_updatePod ''ns/pod1'']"
  by (simp add: applyDataPlaneNow_def updatePods_def isEmpty_def dequeue_def requeue_def
      logCall_def setPlatform_def platformOf_def newUpdateNPMPod_def
      podFailOnceExt_def okExt_def dpQueued_def dp0_def pod1_def)

end
